theory Spec2Isabelle
  imports Complex_Main "HOL-Library.AList"
begin

section \<open>Python values\<close>

text \<open>
  A Python float is a binary64 number, an infinity or NaN; a finite float is the real
  number it denotes. The two zeros are the one value \<open>Fin 0\<close>, and the int \<open>0\<close>
  is the float \<open>0.0\<close>, as \<open>0 == 0.0 == -0.0\<close> in Python.
\<close>

datatype pyfloat = Fin real | PInf | NInf | NaN

datatype error =
    KeyError string
  | TypeError
  | ValueError
  | OverflowError
  | ZeroDivisionError
  | OtherError string

subsection \<open>Binary64 arithmetic\<close>

text \<open>The nearest integer, a tie going to the even one.\<close>

definition round_half_even :: "real \<Rightarrow> int" where
  "round_half_even y =
     (let f = \<lfloor>y\<rfloor>; d = y - of_int f
      in if d < 1 / 2 then f else if 1 / 2 < d then f + 1 else if even f then f else f + 1)"

text \<open>
  Rounding of a real to binary64, to nearest with a tie going to the even significand:
  \<open>bexp\<close> is the binary exponent of the number, held at the least one of the normal
  numbers so that the subnormal numbers are covered; the numbers of that exponent are
  \<open>2 powi (bexp x - 52)\<close> apart. \<open>float_limit\<close> is the least magnitude that this
  rounding takes out of the range, and \<open>fl\<close> is the result of an operation whose
  exact value is given.
\<close>

definition bexp :: "real \<Rightarrow> int" where
  "bexp x = max \<lfloor>log 2 \<bar>x\<bar>\<rfloor> (- 1022)"

definition rnd64 :: "real \<Rightarrow> real" where
  "rnd64 x =
     (if x = 0 then 0
      else of_int (round_half_even (x / 2 powi (bexp x - 52))) * 2 powi (bexp x - 52))"

definition float_limit :: real where
  "float_limit = 2 ^ 1024 - 2 ^ 970"

definition fl :: "real \<Rightarrow> pyfloat" where
  "fl x = (if float_limit \<le> x then PInf else if x \<le> - float_limit then NInf
           else Fin (rnd64 x))"

text \<open>A decimal literal of the source denotes the float nearest to it.\<close>

definition lit :: "real \<Rightarrow> pyfloat" where
  "lit x = fl x"

text \<open>The operations \<open>-x\<close>, \<open>x + y\<close>, \<open>x - y\<close>, \<open>x * y\<close> and \<open>x <= y\<close>.\<close>

fun fneg :: "pyfloat \<Rightarrow> pyfloat" where
  "fneg (Fin x) = Fin (- x)"
| "fneg PInf = NInf"
| "fneg NInf = PInf"
| "fneg NaN = NaN"

fun fadd :: "pyfloat \<Rightarrow> pyfloat \<Rightarrow> pyfloat" where
  "fadd (Fin x) (Fin y) = fl (x + y)"
| "fadd NaN b = NaN"
| "fadd a NaN = NaN"
| "fadd PInf NInf = NaN"
| "fadd NInf PInf = NaN"
| "fadd PInf b = PInf"
| "fadd a PInf = PInf"
| "fadd NInf b = NInf"
| "fadd a NInf = NInf"

definition fsub :: "pyfloat \<Rightarrow> pyfloat \<Rightarrow> pyfloat" where
  "fsub a b = fadd a (fneg b)"

fun fmul :: "pyfloat \<Rightarrow> pyfloat \<Rightarrow> pyfloat" where
  "fmul (Fin x) (Fin y) = fl (x * y)"
| "fmul NaN b = NaN"
| "fmul a NaN = NaN"
| "fmul (Fin x) PInf = (if x = 0 then NaN else if 0 < x then PInf else NInf)"
| "fmul (Fin x) NInf = (if x = 0 then NaN else if 0 < x then NInf else PInf)"
| "fmul PInf (Fin y) = (if y = 0 then NaN else if 0 < y then PInf else NInf)"
| "fmul NInf (Fin y) = (if y = 0 then NaN else if 0 < y then NInf else PInf)"
| "fmul PInf PInf = PInf"
| "fmul PInf NInf = NInf"
| "fmul NInf PInf = NInf"
| "fmul NInf NInf = PInf"


text \<open>
  The quotient \<open>x / d\<close> by a literal: every divisor of the source is a literal whose
  float \<open>d\<close> is positive, so no division raises and an infinity keeps its sign.
\<close>

fun fdiv_lit :: "pyfloat \<Rightarrow> real \<Rightarrow> pyfloat" where
  "fdiv_lit (Fin x) d = fl (x / rnd64 d)"
| "fdiv_lit a d = a"

text \<open>A JSON document as \<open>json.loads\<close> returns it: an object is a dict.\<close>

datatype json =
    JNull
  | JBool bool
  | JInt int
  | JFloat pyfloat
  | JStr string
  | JArr "json list"
  | JObj "(string \<times> json) list"

subsection \<open>The builtin \<open>float\<close>\<close>

text \<open>
  \<open>float(s)\<close> on a string. A character is a code point below 256. The blanks that
  \<open>float\<close> drops at both ends are the ASCII ones from tab to carriage return and the
  space, and the two Latin-1 blanks U+0085 and U+00A0 (the separators U+001C to U+001F
  are not among them). An underscore may stand between two digits. After an optional sign
  comes \<open>inf\<close>, \<open>infinity\<close> or \<open>nan\<close> in any case, or a decimal numeral with an
  optional exponent, which is rounded to binary64; anything else is a \<open>ValueError\<close>.
  An int is rounded too, and is an \<open>OverflowError\<close> beyond the range. \<open>None\<close>, a
  list and a dict are a \<open>TypeError\<close>.
\<close>

definition is_space :: "char \<Rightarrow> bool" where
  "is_space c =
     (let n = (of_char c :: nat) in (9 \<le> n \<and> n \<le> 13) \<or> n = 32 \<or> n = 133 \<or> n = 160)"

definition is_digit :: "char \<Rightarrow> bool" where
  "is_digit c = (let n = (of_char c :: nat) in 48 \<le> n \<and> n \<le> 57)"

definition digit_val :: "char \<Rightarrow> nat" where
  "digit_val c = of_char c - 48"

definition lower :: "char \<Rightarrow> char" where
  "lower c = (let n = (of_char c :: nat) in if 65 \<le> n \<and> n \<le> 90 then char_of (n + 32) else c)"

definition strip :: "string \<Rightarrow> string" where
  "strip s = rev (dropWhile is_space (rev (dropWhile is_space s)))"

text \<open>A run of digits with its underscores removed, and the rest of the text.\<close>

fun digits :: "bool \<Rightarrow> string \<Rightarrow> string \<times> string" where
  "digits p [] = ([], [])"
| "digits p (c # cs) =
     (if is_digit c then (c # fst (digits True cs), snd (digits True cs))
      else if p \<and> c = CHR ''_'' \<and> (case cs of [] \<Rightarrow> False | d # _ \<Rightarrow> is_digit d)
        then digits False cs
      else ([], c # cs))"

definition nat_of_digits :: "string \<Rightarrow> nat" where
  "nat_of_digits ds = foldl (\<lambda>a c. 10 * a + digit_val c) 0 ds"

definition sign_of :: "string \<Rightarrow> bool \<times> string" where
  "sign_of s = (case s of
       [] \<Rightarrow> (False, [])
     | c # cs \<Rightarrow> if c = CHR ''-'' then (True, cs) else if c = CHR ''+'' then (False, cs)
                else (False, s))"

text \<open>The exponent part: \<open>None\<close> when the text that is left is not one.\<close>

definition exponent :: "string \<Rightarrow> int option" where
  "exponent s = (case s of
       [] \<Rightarrow> Some 0
     | c # cs \<Rightarrow>
         if lower c = CHR ''e'' then
           (let (neg, r) = sign_of cs; (ds, rest) = digits False r
            in if ds \<noteq> [] \<and> rest = []
               then Some (if neg then - int (nat_of_digits ds) else int (nat_of_digits ds))
               else None)
         else None)"

definition scale10 :: "nat \<Rightarrow> int \<Rightarrow> real" where
  "scale10 m k = (if 0 \<le> k then of_nat m * 10 ^ nat k else of_nat m / 10 ^ nat (- k))"

definition decimal :: "string \<Rightarrow> real option" where
  "decimal s =
     (let (ip, r1) = digits False s;
          (fp, r2) = (case r1 of
                        [] \<Rightarrow> ([], [])
                      | c # cs \<Rightarrow> if c = CHR ''.'' then digits False cs else ([], r1))
      in if ip = [] \<and> fp = [] then None
         else case exponent r2 of
                None \<Rightarrow> None
              | Some e \<Rightarrow> Some (scale10 (nat_of_digits (ip @ fp)) (e - int (length fp))))"

definition float_of_string :: "string \<Rightarrow> error + pyfloat" where
  "float_of_string s =
     (let (neg, body) = sign_of (strip s); w = map lower body
      in if w = ''inf'' \<or> w = ''infinity'' then Inr (if neg then NInf else PInf)
         else if w = ''nan'' then Inr NaN
         else case decimal body of
                None \<Rightarrow> Inl ValueError
              | Some x \<Rightarrow> Inr (fl (if neg then - x else x)))"

fun py_float :: "json \<Rightarrow> error + pyfloat" where
  "py_float (JStr s) = float_of_string s"
| "py_float (JInt i) =
     (if float_limit \<le> \<bar>of_int i\<bar> then Inl OverflowError
      else Inr (Fin (rnd64 (of_int i))))"
| "py_float (JFloat x) = Inr x"
| "py_float (JBool b) = Inr (Fin (if b then 1 else 0))"
| "py_float JNull = Inl TypeError"
| "py_float (JArr xs) = Inl TypeError"
| "py_float (JObj kv) = Inl TypeError"

subsection \<open>The module's functions\<close>

definition convert_to_float :: "json \<Rightarrow> pyfloat" where
  "convert_to_float v = (case py_float v of Inr x \<Rightarrow> x | Inl e \<Rightarrow> Fin 0)"

definition f_to_c :: "pyfloat \<Rightarrow> pyfloat" where
  "f_to_c v = fdiv_lit (fmul (fsub v (lit 32)) (lit 5)) 9"

text \<open>
  \<open>round(x, 1)\<close>: the nearest multiple of one tenth, a tie going to the even one; the
  float that Python returns is the one nearest to this decimal and is written as it. An
  infinity and NaN round to themselves.
\<close>

definition round1 :: "real \<Rightarrow> real" where
  "round1 x = of_int (round_half_even (x * 10)) / 10"

fun py_round1 :: "pyfloat \<Rightarrow> pyfloat" where
  "py_round1 (Fin x) = Fin (round1 x)"
| "py_round1 s = s"

section \<open>Nodes, host and plugin state\<close>

datatype node_class =
    TemperatureNode
  | HumidityNode
  | PressureNode
  | WindNode
  | PrecipitationNode
  | LightNode
  | LightningNode

text \<open>A driver slot \<open>{'driver': d, 'value': v, 'uom': u}\<close>.\<close>

record driver =
  drv_code :: string
  drv_value :: pyfloat
  drv_uom :: int

text \<open>
  Every node class declares \<open>drivers\<close> as a class attribute, one list object per
  class. \<open>node_drivers = None\<close> is an instance whose \<open>drivers\<close> is that shared
  list; \<open>Some ds\<close> is an instance that owns a list.
\<close>

record node =
  node_cls :: node_class
  node_address :: string
  node_name :: string
  node_units :: string
  node_drivers :: "driver list option"

type_synonym pydict = "(string \<times> string) list"

text \<open>
  Calls into the host framework, the profile writer and the loggers, in order. A printed or
  logged line is recorded by its fixed text: the time stamp in front of it and the
  \<open>str\<close> of a response after it are left out, the exception that a log line prints is
  kept beside it.
\<close>

datatype hcall =
    HostSetDriver string string pyfloat bool bool
  | HostAddNode node "driver list"
  | RemoveNoticesAll
  | AddNotice string
  | WriteProfile pydict pydict pydict pydict pydict pydict pydict
  | InstallProfile
  | HttpGet string
  | LogInfo string
  | LogError string "error option"
  | Print string
  | Syslog string

text \<open>
  The host framework \<open>polyinterface\<close> is not part of the repository. Two of its
  behaviours are inputs of the model: whether the constructor of its \<open>Node\<close> class
  rebinds \<open>drivers\<close> to a copy owned by the instance, and whether
  \<open>installprofile\<close> returns.
\<close>

record host =
  copies_drivers :: bool
  install_ok :: bool

text \<open>
  The module \<open>uom\<close> is imported by the source and is not among its files: its
  tables are a parameter. \<open>uom.LTNG_DRVS\<close> is never read.
\<close>

record uom_tables =
  TEMP_DRVS :: pydict
  HUMD_DRVS :: pydict
  PRES_DRVS :: pydict
  WIND_DRVS :: pydict
  RAIN_DRVS :: pydict
  LITE_DRVS :: pydict
  UOM :: "(string \<times> int) list"

record state =
  ip :: string
  units :: string
  temperature_list :: pydict
  humidity_list :: pydict
  pressure_list :: pydict
  wind_list :: pydict
  rain_list :: pydict
  light_list :: pydict
  lightning_list :: pydict
  myConfig :: pydict
  nodes :: "(string \<times> node) list"
  class_drivers :: "node_class \<Rightarrow> driver list"
  trace :: "hcall list"

datatype 'a outcome = Ok 'a | Raise error

definition emit :: "hcall \<Rightarrow> state \<Rightarrow> state" where
  "emit c st = st\<lparr>trace := trace st @ [c]\<rparr>"

text \<open>\<open>d[k]\<close> on a dict.\<close>

definition getitem :: "(string \<times> 'a) list \<Rightarrow> string \<Rightarrow> 'a outcome" where
  "getitem d k = (case map_of d k of None \<Rightarrow> Raise (KeyError k) | Some v \<Rightarrow> Ok v)"

text \<open>\<open>a == b\<close> on two dicts: the same keys with the same values, in any order.\<close>

definition dict_eq :: "pydict \<Rightarrow> pydict \<Rightarrow> bool" where
  "dict_eq a b = list_all (\<lambda>k. map_of a k = map_of b k) (map fst a @ map fst b)"

text \<open>The class attributes as the module defines them.\<close>

fun class_drivers0 :: "node_class \<Rightarrow> driver list" where
  "class_drivers0 HumidityNode = [\<lparr>drv_code = ''ST'', drv_value = Fin 0, drv_uom = 22\<rparr>]"
| "class_drivers0 c = []"

definition init :: state where
  "init = \<lparr>ip = [], units = ''us'', temperature_list = [], humidity_list = [],
     pressure_list = [], wind_list = [], rain_list = [], light_list = [],
     lightning_list = [], myConfig = [], nodes = [],
     class_drivers = class_drivers0, trace = []\<rparr>"

section \<open>Configuration\<close>

record config =
  customParams :: "pydict option"

definition set_configuration :: "pydict \<Rightarrow> state \<Rightarrow> state" where
  "set_configuration cp st =
     (let st1 = emit (LogInfo ''Check for existing configuration value'') st;
          st2 = (case map_of cp ''IPAddress'' of
                   Some a \<Rightarrow> st1\<lparr>ip := a\<rparr>
                 | None \<Rightarrow> st1\<lparr>ip := []\<rparr>)
      in case map_of cp ''Units'' of
           Some v \<Rightarrow> st2\<lparr>units := v\<rparr>
         | None \<Rightarrow> st2\<lparr>units := ''us''\<rparr>)"

text \<open>
  Modelled from the spec: \<open>write_profile.write_profile\<close>, which is imported by the
  source and is not among its files. Given the seven tables it emits the
  node-definition artifact; the model records the call with the tables it was given.
\<close>

definition write_profile :: "state \<Rightarrow> state" where
  "write_profile st =
     emit (WriteProfile (temperature_list st) (humidity_list st) (pressure_list st)
             (wind_list st) (rain_list st) (light_list st) (lightning_list st)) st"

definition setup_nodedefs :: "host \<Rightarrow> state \<Rightarrow> state" where
  "setup_nodedefs h st =
     (let st1 = st\<lparr>
            temperature_list :=
              AList.update ''windchill'' ''I_TEMP_F''
                (AList.update ''dewpoint'' ''I_TEMP_F''
                  (AList.update ''main'' ''I_TEMP_F'' (temperature_list st))),
            humidity_list := AList.update ''main'' ''I_HUMIDITY'' (humidity_list st),
            pressure_list :=
              AList.update ''sealevel'' ''I_INHG''
                (AList.update ''station'' ''I_INHG'' (pressure_list st)),
            wind_list :=
              AList.update ''winddir'' ''I_DEGREE''
                (AList.update ''gustspeed'' ''I_MPH''
                  (AList.update ''windspeed'' ''I_MPH'' (wind_list st))),
            rain_list :=
              AList.update ''total'' ''I_INCHES''
                (AList.update ''rate'' ''I_INHR'' (rain_list st)),
            light_list :=
              AList.update ''solar_radiation'' ''I_RADIATION''
                (AList.update ''uv'' ''I_UV'' (light_list st))\<rparr>;
          st2 = emit (LogInfo ''Creating node definition profile based on config.'') st1;
          st3 = emit InstallProfile (write_profile st2)
      in if install_ok h then st3
         else emit (LogError ''Failed up push profile to ISY'' None) st3)"

section \<open>Discovery\<close>

text \<open>The list that \<open>node.drivers\<close> evaluates to.\<close>

definition drivers_of :: "state \<Rightarrow> node \<Rightarrow> driver list" where
  "drivers_of st n =
     (case node_drivers n of Some ds \<Rightarrow> ds | None \<Rightarrow> class_drivers st (node_cls n))"

text \<open>
  The constructor call \<open>Cls(self, self.address, address, name)\<close>. The controller and
  its address are the same in every call and are not recorded in the node. The class
  attribute \<open>units\<close> is \<open>'metric'\<close> in every node class.
\<close>

definition new_node :: "host \<Rightarrow> state \<Rightarrow> node_class \<Rightarrow> string \<Rightarrow> string \<Rightarrow> node" where
  "new_node h st c a nm =
     \<lparr>node_cls = c, node_address = a, node_name = nm, node_units = ''metric'',
      node_drivers = (if copies_drivers h then Some (class_drivers st c) else None)\<rparr>"

text \<open>\<open>node.drivers.append(e)\<close>: in place, on whichever list the node reads.\<close>

definition append_driver :: "driver \<Rightarrow> node \<times> state \<Rightarrow> node \<times> state" where
  "append_driver e ns =
     (case ns of (n, st) \<Rightarrow>
        (case node_drivers n of
           Some ds \<Rightarrow> (n\<lparr>node_drivers := Some (ds @ [e])\<rparr>, st)
         | None \<Rightarrow>
             (n, st\<lparr>class_drivers :=
                     (class_drivers st)(node_cls n := class_drivers st (node_cls n) @ [e])\<rparr>)))"

text \<open>
  The loop \<open>for d in lst: node.drivers.append({...})\<close>; \<open>items\<close> are the keys of
  the list with their values, in the dict's order. A lookup that raises leaves the
  loop with the appends made so far.
\<close>

fun add_drivers ::
  "uom_tables \<Rightarrow> pydict \<Rightarrow> pydict \<Rightarrow> node \<times> state \<Rightarrow> node outcome \<times> state" where
  "add_drivers u drvs [] (n, st) = (Ok n, st)"
| "add_drivers u drvs ((d, unit) # items) (n, st) =
     (case getitem drvs d of
        Raise e \<Rightarrow> (Raise e, st)
      | Ok code \<Rightarrow>
          (case getitem (UOM u) unit of
             Raise e \<Rightarrow> (Raise e, st)
           | Ok um \<Rightarrow>
               add_drivers u drvs items
                 (append_driver \<lparr>drv_code = code, drv_value = Fin 0, drv_uom = um\<rparr> (n, st))))"

text \<open>\<open>self.addNode(node)\<close>: the host files the node under its address.\<close>

definition addNode :: "node \<Rightarrow> state \<Rightarrow> state" where
  "addNode n st =
     emit (HostAddNode n (drivers_of st n))
       (st\<lparr>nodes := AList.update (node_address n) n (nodes st)\<rparr>)"

text \<open>One of the six blocks of \<open>discover\<close>.\<close>

definition make_node ::
  "host \<Rightarrow> uom_tables \<Rightarrow> node_class \<Rightarrow> string \<Rightarrow> string \<Rightarrow> pydict \<Rightarrow> pydict \<Rightarrow> state
     \<Rightarrow> unit outcome \<times> state" where
  "make_node h u c a nm drvs lst st =
     (let n = (new_node h st c a nm)\<lparr>node_units := units st\<rparr>
      in case add_drivers u drvs lst (n, st) of
           (Raise e, st1) \<Rightarrow> (Raise e, st1)
         | (Ok n1, st1) \<Rightarrow> (Ok (), addNode n1 st1))"

definition andthen ::
  "unit outcome \<times> state \<Rightarrow> (state \<Rightarrow> unit outcome \<times> state) \<Rightarrow> unit outcome \<times> state" where
  "andthen r f = (case r of (Ok x, st) \<Rightarrow> f st | (Raise e, st) \<Rightarrow> (Raise e, st))"

definition discover :: "host \<Rightarrow> uom_tables \<Rightarrow> state \<Rightarrow> unit outcome \<times> state" where
  "discover h u st0 =
     andthen (andthen (andthen (andthen (andthen
       (make_node h u TemperatureNode ''temperature'' ''Temperatures'' (TEMP_DRVS u)
          (temperature_list st0) (emit (LogInfo ''Creating nodes.'') st0))
       (\<lambda>st. make_node h u HumidityNode ''humidity'' ''Humidity'' (HUMD_DRVS u)
          (humidity_list st) st))
       (\<lambda>st. make_node h u PressureNode ''pressure'' ''Barometric Pressure'' (PRES_DRVS u)
          (pressure_list st) st))
       (\<lambda>st. make_node h u WindNode ''wind'' ''Wind'' (WIND_DRVS u) (wind_list st) st))
       (\<lambda>st. make_node h u PrecipitationNode ''rain'' ''Precipitation'' (RAIN_DRVS u)
          (rain_list st) st))
       (\<lambda>st. make_node h u LightNode ''light'' ''Illumination'' (LITE_DRVS u)
          (light_list st) st)"

text \<open>The handler that the host calls on a configuration event.\<close>

definition ip_notice :: string where
  "ip_notice = ''IP/Host address of the WiFiLogger2 device is required.''"

definition process_config ::
  "host \<Rightarrow> uom_tables \<Rightarrow> config \<Rightarrow> state \<Rightarrow> unit outcome \<times> state" where
  "process_config h u cfg st =
     (case customParams cfg of
        None \<Rightarrow> (Ok (), st)
      | Some cp \<Rightarrow>
          if \<not> dict_eq cp (myConfig st) then
            (let st1 = emit (LogInfo ''New configuration, updating configuration'') st;
                 st2 = setup_nodedefs h (set_configuration cp st1)
             in case discover h u st2 of
                  (Raise e, st3) \<Rightarrow> (Raise e, st3)
                | (Ok x, st3) \<Rightarrow>
                    (let st4 = emit RemoveNoticesAll (st3\<lparr>myConfig := cp\<rparr>)
                     in if ip st4 = [] then (Ok (), emit (AddNotice ip_notice) st4)
                        else (Ok (), st4)))
          else (Ok (), st))"

section \<open>Writing driver values\<close>

text \<open>
  \<open>polyinterface.Node.setDriver(driver, value, report, force)\<close>: what the host does
  with the value is outside the repository; the model records the call.
\<close>

definition host_setDriver :: "node \<Rightarrow> string \<Rightarrow> pyfloat \<Rightarrow> bool \<Rightarrow> bool \<Rightarrow> state \<Rightarrow> state" where
  "host_setDriver n d v report force st = emit (HostSetDriver (node_address n) d v report force) st"

text \<open>The \<open>setDriver\<close> override of each node class.\<close>

definition setDriver :: "node \<Rightarrow> string \<Rightarrow> pyfloat \<Rightarrow> state \<Rightarrow> state" where
  "setDriver n d v st =
     (case node_cls n of
        TemperatureNode \<Rightarrow> host_setDriver n d (py_round1 v) True True st
      | HumidityNode \<Rightarrow> host_setDriver n d v True True st
      | PressureNode \<Rightarrow> host_setDriver n d v True True st
      | WindNode \<Rightarrow> host_setDriver n d v True True st
      | PrecipitationNode \<Rightarrow> host_setDriver n d v True True st
      | LightNode \<Rightarrow> host_setDriver n d v True True st
      | LightningNode \<Rightarrow> host_setDriver n d v True True st)"

section \<open>Polling\<close>

text \<open>
  What \<open>h.request(url, "GET")\<close> gives: a failure of the connection, or a status with
  the outcome of \<open>json.loads(content.decode('utf-8'))\<close> on the body.
\<close>

datatype http_result = NetFail error | Response int "json outcome"

definition get_data :: "http_result \<Rightarrow> state \<Rightarrow> json outcome \<times> state" where
  "get_data resp st =
     (let st1 = emit (HttpGet (''http://'' @ ip st @ ''/wflexp.json'')) st
      in case resp of
           NetFail e \<Rightarrow> (Raise e, st1)
         | Response status body \<Rightarrow>
             (let st2 = (if status \<noteq> 200
                         then emit (Print '' -  Bad response from WiFiLogger2. '')
                                (emit (Syslog ''Bad response from WiFiLogger2 '') st1)
                         else st1)
              in (body, st2)))"

text \<open>\<open>data[k]\<close> on the parsed document.\<close>

fun subscript :: "json \<Rightarrow> string \<Rightarrow> json outcome" where
  "subscript (JObj kv) k = getitem kv k"
| "subscript j k = Raise TypeError"

text \<open>
  The thirteen statements of the mapping block, in the order of the source: the node's
  address, the table of driver codes, the name in it, the JSON field, and whether
  \<open>f_to_c\<close> is applied.
\<close>

type_synonym poll_row = "string \<times> pydict \<times> string \<times> string \<times> bool"

definition poll_rows :: "uom_tables \<Rightarrow> poll_row list" where
  "poll_rows u =
     [(''light'', LITE_DRVS u, ''uv'', ''uv'', False),
      (''light'', LITE_DRVS u, ''solar_radiation'', ''solar'', False),
      (''rain'', RAIN_DRVS u, ''rate'', ''rainr'', False),
      (''rain'', RAIN_DRVS u, ''total'', ''rain24'', False),
      (''temperature'', TEMP_DRVS u, ''dewpoint'', ''dew'', True),
      (''temperature'', TEMP_DRVS u, ''main'', ''tempout'', True),
      (''temperature'', TEMP_DRVS u, ''windchill'', ''chill'', True),
      (''humidity'', HUMD_DRVS u, ''main'', ''humout'', False),
      (''pressure'', PRES_DRVS u, ''station'', ''bartr'', False),
      (''pressure'', PRES_DRVS u, ''sealevel'', ''bar'', False),
      (''wind'', WIND_DRVS u, ''windspeed'', ''windspd'', False),
      (''wind'', WIND_DRVS u, ''gustspeed'', ''gust'', False),
      (''wind'', WIND_DRVS u, ''winddir'', ''winddir'', False)]"

text \<open>
  One statement \<open>self.nodes[a].setDriver(DRVS[name], conv(data[field]))\<close>: the node is
  looked up first, then the driver code, then the field.
\<close>

fun write_row :: "json \<Rightarrow> poll_row \<Rightarrow> state \<Rightarrow> unit outcome \<times> state" where
  "write_row data (a, drvs, name, field, temp) st =
     (case getitem (nodes st) a of
        Raise e \<Rightarrow> (Raise e, st)
      | Ok n \<Rightarrow>
          (case getitem drvs name of
             Raise e \<Rightarrow> (Raise e, st)
           | Ok code \<Rightarrow>
               (case subscript data field of
                  Raise e \<Rightarrow> (Raise e, st)
                | Ok v \<Rightarrow>
                    (Ok (), setDriver n code
                              (if temp then f_to_c (convert_to_float v) else convert_to_float v)
                              st))))"

fun write_rows :: "json \<Rightarrow> poll_row list \<Rightarrow> state \<Rightarrow> unit outcome \<times> state" where
  "write_rows data [] st = (Ok (), st)"
| "write_rows data (r # rs) st =
     (case write_row data r st of
        (Raise e, st1) \<Rightarrow> (Raise e, st1)
      | (Ok x, st1) \<Rightarrow> write_rows data rs st1)"

definition longPoll :: "http_result \<Rightarrow> uom_tables \<Rightarrow> state \<Rightarrow> unit outcome \<times> state" where
  "longPoll resp u st =
     (if ip st = [] then (Ok (), emit (Print '' -  No IP/URL for WiFiLogger2.'') st)
      else
        (let st1 = emit (LogInfo ''LongPoll'') st
         in case get_data resp st1 of
              (Raise e, st2) \<Rightarrow>
                (Ok (), emit (LogError ''Failure trying to connect to WiFiLogger2 device. '' (Some e)) st2)
            | (Ok data, st2) \<Rightarrow>
                (case write_rows data (poll_rows u) st2 of
                   (Raise e, st3) \<Rightarrow>
                     (Ok (), emit (LogError ''Failure while parsing WiFiLogger2 data. '' (Some e)) st3)
                 | (Ok x, st3) \<Rightarrow> (Ok (), st3))))"

section \<open>Derived calculations\<close>

text \<open>
  \<open>Dewpoint\<close>, on finite arguments and over the reals, with the real logarithm for
  \<open>math.log\<close>, which raises on an argument that is not positive; a division raises on
  a zero divisor.
\<close>

definition Dewpoint :: "real \<Rightarrow> real \<Rightarrow> real outcome" where
  "Dewpoint t h =
     (if 243.04 + t = 0 then Raise ZeroDivisionError
      else
        (let b = (17.625 * t) / (243.04 + t); rh = h / 100
         in if rh \<le> 0 then Raise ValueError
            else
              (let c = ln rh
               in if 17.625 - c - b = 0 then Raise ZeroDivisionError
                  else Ok (round1 ((243.04 * (c + b)) / (17.625 - c - b))))))"




section \<open>Reading the trace\<close>

text \<open>The values handed to the host: node address, driver code, value.\<close>

fun set_calls :: "hcall list \<Rightarrow> (string \<times> string \<times> pyfloat) list" where
  "set_calls [] = []"
| "set_calls (HostSetDriver a d v r f # cs) = (a, d, v) # set_calls cs"
| "set_calls (c # cs) = set_calls cs"

text \<open>The nodes handed to the host: class, address, name, units, driver list.\<close>

fun add_calls :: "hcall list \<Rightarrow> (node_class \<times> string \<times> string \<times> string \<times> driver list) list" where
  "add_calls [] = []"
| "add_calls (HostAddNode n ds # cs) =
     (node_cls n, node_address n, node_name n, node_units n, ds) # add_calls cs"
| "add_calls (c # cs) = add_calls cs"

text \<open>The notices the host shows after a sequence of calls, starting from \<open>ns\<close>.\<close>

fun notices_after :: "string list \<Rightarrow> hcall list \<Rightarrow> string list" where
  "notices_after ns [] = ns"
| "notices_after ns (RemoveNoticesAll # cs) = notices_after [] cs"
| "notices_after ns (AddNotice s # cs) = notices_after (ns @ [s]) cs"
| "notices_after ns (c # cs) = notices_after ns cs"

text \<open>
  An instance of the tables and of the host for evaluation: the names the source looks
  up, with driver and unit codes of the host's vocabulary.
\<close>

definition sample_uom :: uom_tables where
  "sample_uom =
     \<lparr>TEMP_DRVS = [(''main'', ''ST''), (''dewpoint'', ''GV0''), (''windchill'', ''GV1'')],
      HUMD_DRVS = [(''main'', ''ST'')],
      PRES_DRVS = [(''station'', ''ST''), (''sealevel'', ''GV0'')],
      WIND_DRVS = [(''windspeed'', ''ST''), (''gustspeed'', ''GV1''), (''winddir'', ''GV0'')],
      RAIN_DRVS = [(''rate'', ''ST''), (''total'', ''GV5'')],
      LITE_DRVS = [(''uv'', ''ST''), (''solar_radiation'', ''GV0'')],
      UOM = [(''I_TEMP_F'', 17), (''I_HUMIDITY'', 22), (''I_INHG'', 23), (''I_MPH'', 48),
             (''I_DEGREE'', 14), (''I_INHR'', 24), (''I_INCHES'', 105), (''I_UV'', 71),
             (''I_RADIATION'', 74)]\<rparr>"

definition sample_host :: "bool \<Rightarrow> host" where
  "sample_host copies = \<lparr>copies_drivers = copies, install_ok = True\<rparr>"

text \<open>The device response of the end-to-end example.\<close>

definition sample_payload :: "(string \<times> json) list" where
  "sample_payload =
     [(''tempout'', JStr ''68.0''), (''humout'', JStr ''55''), (''bar'', JStr ''30.1''),
      (''bartr'', JStr ''29.9''), (''windspd'', JStr ''5''), (''gust'', JStr ''10''),
      (''winddir'', JStr ''180''), (''rainr'', JStr ''0''), (''rain24'', JStr ''0.25''),
      (''uv'', JStr ''3''), (''solar'', JStr ''450''), (''dew'', JStr ''50''),
      (''chill'', JStr ''68'')]"

section \<open>Vocabulary of the statements\<close>

subsection \<open>Polling\<close>

text \<open>
  The addresses that the mapping block reads from \<open>self.nodes\<close>, with the class that
  \<open>discover\<close> files under each; a state is ready for polling when it has them.
\<close>

definition node_specs :: "(string \<times> node_class) list" where
  "node_specs =
     [(''temperature'', TemperatureNode), (''humidity'', HumidityNode),
      (''pressure'', PressureNode), (''wind'', WindNode),
      (''rain'', PrecipitationNode), (''light'', LightNode)]"

definition nodes_ready :: "state \<Rightarrow> bool" where
  "nodes_ready st =
     list_all (\<lambda>(a, c). case map_of (nodes st) a of
                           None \<Rightarrow> False
                         | Some n \<Rightarrow> node_cls n = c \<and> node_address n = a) node_specs"

text \<open>The thirteen driver names of the mapping block are in their tables.\<close>

definition drivers_ok :: "uom_tables \<Rightarrow> bool" where
  "drivers_ok u = list_all (\<lambda>(a, drvs, name, field, temp). map_of drvs name \<noteq> None) (poll_rows u)"

text \<open>
  What a row hands to the host when its lookups succeed: the address, the driver code and
  the converted field, rounded on the temperature rows.
\<close>

definition row_field :: "poll_row \<Rightarrow> string" where
  "row_field r = (case r of (a, drvs, name, field, temp) \<Rightarrow> field)"

definition row_write :: "(string \<times> json) list \<Rightarrow> poll_row \<Rightarrow> string \<times> string \<times> pyfloat" where
  "row_write kv r =
     (case r of (a, drvs, name, field, temp) \<Rightarrow>
        (a, the (map_of drvs name),
         (let x = convert_to_float (the (map_of kv field))
          in if temp then py_round1 (f_to_c x) else x)))"

text \<open>The node and the driver code of a row can be looked up in a state.\<close>

definition row_ok :: "state \<Rightarrow> poll_row \<Rightarrow> bool" where
  "row_ok st r =
     (case r of (a, drvs, name, field, temp) \<Rightarrow>
        (\<exists>n. map_of (nodes st) a = Some n \<and> node_address n = a
              \<and> (node_cls n = TemperatureNode \<longleftrightarrow> temp))
        \<and> map_of drvs name \<noteq> None)"

text \<open>The field of a row is a key of the payload.\<close>

definition present :: "(string \<times> json) list \<Rightarrow> poll_row \<Rightarrow> bool" where
  "present kv r = (map_of kv (row_field r) \<noteq> None)"

subsection \<open>Discovery\<close>

text \<open>
  Every name of an enabled-measurement table has a driver code, and its unit a code in
  \<open>uom.UOM\<close>: the loops of \<open>discover\<close> raise no \<open>KeyError\<close>.
\<close>

definition resolves :: "uom_tables \<Rightarrow> pydict \<Rightarrow> pydict \<Rightarrow> bool" where
  "resolves u drvs lst =
     list_all (\<lambda>(d, unit). map_of drvs d \<noteq> None \<and> map_of (UOM u) unit \<noteq> None) lst"

definition resolvable :: "uom_tables \<Rightarrow> state \<Rightarrow> bool" where
  "resolvable u st =
     (resolves u (TEMP_DRVS u) (temperature_list st) \<and>
      resolves u (HUMD_DRVS u) (humidity_list st) \<and>
      resolves u (PRES_DRVS u) (pressure_list st) \<and>
      resolves u (WIND_DRVS u) (wind_list st) \<and>
      resolves u (RAIN_DRVS u) (rain_list st) \<and>
      resolves u (LITE_DRVS u) (light_list st))"

text \<open>The driver slot that the loop appends for an entry of a table.\<close>

definition slot :: "uom_tables \<Rightarrow> pydict \<Rightarrow> string \<times> string \<Rightarrow> driver" where
  "slot u drvs e =
     \<lparr>drv_code = the (map_of drvs (fst e)), drv_value = Fin 0,
      drv_uom = the (map_of (UOM u) (snd e))\<rparr>"

text \<open>
  The state after one block of \<open>discover\<close> whose lookups succeed, and after the six
  blocks.
\<close>

definition made ::
  "host \<Rightarrow> uom_tables \<Rightarrow> node_class \<Rightarrow> string \<Rightarrow> string \<Rightarrow> pydict \<Rightarrow> pydict \<Rightarrow> state \<Rightarrow> state" where
  "made h u c a nm drvs lst st =
     (let ds = class_drivers st c @ map (slot u drvs) lst;
          n = \<lparr>node_cls = c, node_address = a, node_name = nm, node_units = units st,
               node_drivers = (if copies_drivers h then Some ds else None)\<rparr>;
          st1 = (if copies_drivers h then st
                 else st\<lparr>class_drivers := (class_drivers st)(c := ds)\<rparr>)
      in emit (HostAddNode n ds) (st1\<lparr>nodes := AList.update a n (nodes st1)\<rparr>))"

definition discovered :: "host \<Rightarrow> uom_tables \<Rightarrow> state \<Rightarrow> state" where
  "discovered h u st =
     made h u LightNode ''light'' ''Illumination'' (LITE_DRVS u) (light_list st)
      (made h u PrecipitationNode ''rain'' ''Precipitation'' (RAIN_DRVS u) (rain_list st)
        (made h u WindNode ''wind'' ''Wind'' (WIND_DRVS u) (wind_list st)
          (made h u PressureNode ''pressure'' ''Barometric Pressure'' (PRES_DRVS u) (pressure_list st)
            (made h u HumidityNode ''humidity'' ''Humidity'' (HUMD_DRVS u) (humidity_list st)
              (made h u TemperatureNode ''temperature'' ''Temperatures'' (TEMP_DRVS u)
                 (temperature_list st) (emit (LogInfo ''Creating nodes.'') st))))))"

text \<open>The nodes of a state, each with the driver list it reads.\<close>

definition node_table :: "state \<Rightarrow> (string \<times> node_class \<times> string \<times> string \<times> driver list) list" where
  "node_table st =
     map (\<lambda>(a, n). (a, node_cls n, node_name n, node_units n, drivers_of st n)) (nodes st)"

text \<open>
  The state in which \<open>discover\<close> is first called: the initial state after
  \<open>set_configuration\<close> and \<open>setup_nodedefs\<close>, on a host that copies driver lists or
  on one that does not.
\<close>

definition configured :: "bool \<Rightarrow> state" where
  "configured copies =
     setup_nodedefs (sample_host copies)
       (set_configuration [(''IPAddress'', ''192.168.1.50'')] init)"

subsection \<open>Configuration\<close>

text \<open>The unit names that \<open>setup_nodedefs\<close> assigns have a code in \<open>uom.UOM\<close>.\<close>

definition units_ok :: "uom_tables \<Rightarrow> bool" where
  "units_ok u =
     list_all (\<lambda>k. map_of (UOM u) k \<noteq> None)
       [''I_TEMP_F'', ''I_HUMIDITY'', ''I_INHG'', ''I_MPH'', ''I_DEGREE'', ''I_INHR'',
        ''I_INCHES'', ''I_UV'', ''I_RADIATION'']"

definition tables_ok :: "uom_tables \<Rightarrow> bool" where
  "tables_ok u = (drivers_ok u \<and> units_ok u)"

text \<open>The calls made between two states.\<close>

definition new_calls :: "state \<Rightarrow> state \<Rightarrow> hcall list" where
  "new_calls st st' = drop (length (trace st)) (trace st')"

text \<open>The state after the rebuilding steps of \<open>process_config\<close>, when discovery returns.\<close>

definition reconfigured :: "host \<Rightarrow> uom_tables \<Rightarrow> pydict \<Rightarrow> state \<Rightarrow> state" where
  "reconfigured h u cp st =
     discovered h u
       (setup_nodedefs h
          (set_configuration cp
             (emit (LogInfo ''New configuration, updating configuration'') st)))"

subsection \<open>Values and sample inputs\<close>

text \<open>The code of a driver name and the converted value of a payload field, both present.\<close>

definition driver_code :: "pydict \<Rightarrow> string \<Rightarrow> string" where
  "driver_code tbl name = the (map_of tbl name)"

definition field_value :: "(string \<times> json) list \<Rightarrow> string \<Rightarrow> pyfloat" where
  "field_value kv field = convert_to_float (the (map_of kv field))"

text \<open>The state after configuration and a first discovery, with the sample tables.\<close>

definition ready :: "bool \<Rightarrow> state" where
  "ready c = snd (discover (sample_host c) sample_uom (configured c))"

text \<open>
  The payload of the example with \<open>dew\<close> not a number and \<open>humout\<close> missing, and the
  same payload with \<open>uv\<close> missing.
\<close>

definition garbled_payload :: "(string \<times> json) list" where
  "garbled_payload =
     [(''tempout'', JStr ''68.0''), (''bar'', JStr ''30.1''),
      (''bartr'', JStr ''29.9''), (''windspd'', JStr ''5''), (''gust'', JStr ''10''),
      (''winddir'', JStr ''180''), (''rainr'', JStr ''0''), (''rain24'', JStr ''0.25''),
      (''uv'', JStr ''3''), (''solar'', JStr ''450''), (''dew'', JStr ''--''),
      (''chill'', JStr ''68'')]"

definition payload_without_uv :: "(string \<times> json) list" where
  "payload_without_uv = remove1 (''uv'', JStr ''3'') sample_payload"






text \<open>A configuration event that sets the units and no address, and the state it leaves.\<close>

definition units_only :: config where
  "units_only = \<lparr>customParams = Some [(''Units'', ''metric'')]\<rparr>"

definition settled :: state where
  "settled = snd (process_config (sample_host True) sample_uom units_only init)"

section \<open>Properties\<close>

subsection \<open>The mapping block\<close>

lemma set_calls_append: "set_calls (xs @ ys) = set_calls xs @ set_calls ys"
  by (induction xs rule: set_calls.induct) simp_all

lemma emit_simps [simp]:
  "trace (emit c st) = trace st @ [c]"
  "nodes (emit c st) = nodes st"
  "ip (emit c st) = ip st"
  by (simp_all add: emit_def)

lemma setDriver_emit:
  "setDriver n d v st =
     emit (HostSetDriver (node_address n) d
             (if node_cls n = TemperatureNode then py_round1 v else v) True True) st"
  by (cases "node_cls n") (simp_all add: setDriver_def host_setDriver_def)

lemma row_ok_emit: "row_ok (emit c st) r = row_ok st r"
  by (simp add: row_ok_def)

lemma write_row_present:
  assumes "row_ok st r" and "map_of kv (row_field r) = Some v"
  shows "\<exists>c. write_row (JObj kv) r st = (Ok (), emit c st) \<and> set_calls [c] = [row_write kv r]"
proof -
  obtain a drvs name field temp where r: "r = (a, drvs, name, field, temp)"
    by (cases r) auto
  from assms(1) r obtain n code where
    n: "map_of (nodes st) a = Some n" "node_address n = a" "node_cls n = TemperatureNode \<longleftrightarrow> temp"
    and code: "map_of drvs name = Some code"
    by (auto simp: row_ok_def)
  from assms(2) r have v: "map_of kv field = Some v" by (simp add: row_field_def)
  show ?thesis
    using n code v
    by (auto simp: r getitem_def setDriver_emit row_write_def)
qed

lemma write_row_absent:
  assumes "row_ok st r" and "map_of kv (row_field r) = None"
  shows "write_row (JObj kv) r st = (Raise (KeyError (row_field r)), st)"
proof -
  obtain a drvs name field temp where r: "r = (a, drvs, name, field, temp)"
    by (cases r) auto
  from assms(1) r obtain n code where
    n: "map_of (nodes st) a = Some n" and code: "map_of drvs name = Some code"
    by (auto simp: row_ok_def)
  from assms(2) r have v: "map_of kv field = None" by (simp add: row_field_def)
  show ?thesis using n code v by (simp add: r getitem_def row_field_def)
qed

lemma write_rows_calls:
  assumes "\<forall>r \<in> set rows. row_ok st r"
  shows "set_calls (trace (snd (write_rows (JObj kv) rows st)))
           = set_calls (trace st) @ map (row_write kv) (takeWhile (present kv) rows)
         \<and> nodes (snd (write_rows (JObj kv) rows st)) = nodes st
         \<and> ip (snd (write_rows (JObj kv) rows st)) = ip st
         \<and> fst (write_rows (JObj kv) rows st)
             = (case dropWhile (present kv) rows of
                  [] \<Rightarrow> Ok ()
                | r # rs \<Rightarrow> Raise (KeyError (row_field r)))"
  using assms
proof (induction rows arbitrary: st)
  case Nil
  then show ?case by simp
next
  case (Cons r rows)
  have ok: "row_ok st r" using Cons.prems by simp
  show ?case
  proof (cases "map_of kv (row_field r)")
    case None
    then show ?thesis
      using write_row_absent [OF ok None] by (simp add: present_def)
  next
    case (Some v)
    from write_row_present [OF ok Some] obtain c where
      c: "write_row (JObj kv) r st = (Ok (), emit c st)" "set_calls [c] = [row_write kv r]"
      by blast
    have "\<forall>r \<in> set rows. row_ok (emit c st) r"
      using Cons.prems by (simp add: row_ok_emit)
    from Cons.IH [OF this] show ?thesis
      using c Some by (simp add: present_def set_calls_append)
  qed
qed

lemma ready_rows:
  assumes "nodes_ready st" and "drivers_ok u"
  shows "\<forall>r \<in> set (poll_rows u). row_ok st r"
  using assms
  by (auto simp: nodes_ready_def drivers_ok_def node_specs_def poll_rows_def row_ok_def
           split: option.splits)

lemma longPoll_returns: "fst (longPoll resp u st) = Ok ()"
  by (simp add: longPoll_def Let_def split: prod.splits outcome.splits)

subsection \<open>Discovery\<close>

lemma add_drivers_own:
  assumes "resolves u drvs lst" and "node_drivers n = Some ds"
  shows "add_drivers u drvs lst (n, st)
           = (Ok (n\<lparr>node_drivers := Some (ds @ map (slot u drvs) lst)\<rparr>), st)"
  using assms
proof (induction lst arbitrary: n ds)
  case Nil
  then show ?case by simp
next
  case (Cons e lst)
  obtain d unit where e: "e = (d, unit)" by (cases e)
  from Cons.prems e obtain code um where
    look: "map_of drvs d = Some code" "map_of (UOM u) unit = Some um"
    and rest: "resolves u drvs lst"
    by (auto simp: resolves_def)
  let ?s = "\<lparr>drv_code = code, drv_value = Fin 0, drv_uom = um\<rparr>"
  have "node_drivers (n\<lparr>node_drivers := Some (ds @ [?s])\<rparr>) = Some (ds @ [?s])" by simp
  from Cons.IH [OF rest this] show ?case
    using look Cons.prems(2) by (simp add: e getitem_def append_driver_def slot_def)
qed

lemma add_drivers_shared:
  assumes "resolves u drvs lst" and "node_drivers n = None"
  shows "add_drivers u drvs lst (n, st)
           = (Ok n, st\<lparr>class_drivers :=
                (class_drivers st)(node_cls n := class_drivers st (node_cls n) @ map (slot u drvs) lst)\<rparr>)"
  using assms
proof (induction lst arbitrary: st)
  case Nil
  then show ?case by simp
next
  case (Cons e lst)
  obtain d unit where e: "e = (d, unit)" by (cases e)
  from Cons.prems e obtain code um where
    look: "map_of drvs d = Some code" "map_of (UOM u) unit = Some um"
    and rest: "resolves u drvs lst"
    by (auto simp: resolves_def)
  let ?s = "\<lparr>drv_code = code, drv_value = Fin 0, drv_uom = um\<rparr>"
  let ?c = "node_cls n"
  let ?st1 = "st\<lparr>class_drivers := (class_drivers st)(?c := class_drivers st ?c @ [?s])\<rparr>"
  have step: "add_drivers u drvs (e # lst) (n, st) = add_drivers u drvs lst (n, ?st1)"
    using look Cons.prems(2) by (simp add: e getitem_def append_driver_def)
  have s: "slot u drvs e = ?s"
    using look by (simp add: slot_def e)
  have "(class_drivers ?st1)(?c := class_drivers ?st1 ?c @ map (slot u drvs) lst)
          = (class_drivers st)(?c := class_drivers st ?c @ map (slot u drvs) (e # lst))"
    by (simp add: s)
  then have "?st1\<lparr>class_drivers := (class_drivers ?st1)(?c := class_drivers ?st1 ?c @ map (slot u drvs) lst)\<rparr>
          = st\<lparr>class_drivers := (class_drivers st)(?c := class_drivers st ?c @ map (slot u drvs) (e # lst))\<rparr>"
    by simp
  then show ?case
    by (simp only: step Cons.IH [OF rest Cons.prems(2), of ?st1])
qed

lemma make_node_made:
  assumes "resolves u drvs lst"
  shows "make_node h u c a nm drvs lst st = (Ok (), made h u c a nm drvs lst st)"
proof (cases "copies_drivers h")
  case True
  then show ?thesis
    using add_drivers_own [OF assms, of "(new_node h st c a nm)\<lparr>node_units := units st\<rparr>" "class_drivers st c" st]
    by (simp add: make_node_def made_def new_node_def addNode_def drivers_of_def Let_def)
next
  case False
  then show ?thesis
    using add_drivers_shared [OF assms, of "(new_node h st c a nm)\<lparr>node_units := units st\<rparr>" st]
    by (simp add: make_node_def made_def new_node_def addNode_def drivers_of_def Let_def)
qed

lemma made_frame [simp]:
  "temperature_list (made h u c a nm drvs lst st) = temperature_list st"
  "humidity_list (made h u c a nm drvs lst st) = humidity_list st"
  "pressure_list (made h u c a nm drvs lst st) = pressure_list st"
  "wind_list (made h u c a nm drvs lst st) = wind_list st"
  "rain_list (made h u c a nm drvs lst st) = rain_list st"
  "light_list (made h u c a nm drvs lst st) = light_list st"
  "lightning_list (made h u c a nm drvs lst st) = lightning_list st"
  "units (made h u c a nm drvs lst st) = units st"
  "ip (made h u c a nm drvs lst st) = ip st"
  "myConfig (made h u c a nm drvs lst st) = myConfig st"
  by (simp_all add: made_def Let_def emit_def)

lemma emit_frame [simp]:
  "temperature_list (emit e st) = temperature_list st"
  "humidity_list (emit e st) = humidity_list st"
  "pressure_list (emit e st) = pressure_list st"
  "wind_list (emit e st) = wind_list st"
  "rain_list (emit e st) = rain_list st"
  "light_list (emit e st) = light_list st"
  "lightning_list (emit e st) = lightning_list st"
  "units (emit e st) = units st"
  "myConfig (emit e st) = myConfig st"
  "class_drivers (emit e st) = class_drivers st"
  by (simp_all add: emit_def)

lemma discover_discovered:
  assumes "resolvable u st"
  shows "discover h u st = (Ok (), discovered h u st)"
  using assms
  by (simp add: discover_def discovered_def andthen_def resolvable_def make_node_made)

lemma add_calls_append: "add_calls (xs @ ys) = add_calls xs @ add_calls ys"
  by (induction xs rule: add_calls.induct) simp_all

lemma made_nodes:
  "nodes (made h u c a nm drvs lst st) =
     AList.update a
       \<lparr>node_cls = c, node_address = a, node_name = nm, node_units = units st,
        node_drivers = (if copies_drivers h
                        then Some (class_drivers st c @ map (slot u drvs) lst) else None)\<rparr>
       (nodes st)"
  by (simp add: made_def Let_def)

lemma made_class_drivers:
  "class_drivers (made h u c a nm drvs lst st) =
     (if copies_drivers h then class_drivers st
      else (class_drivers st)(c := class_drivers st c @ map (slot u drvs) lst))"
  by (simp add: made_def Let_def)

lemma made_add_calls:
  "add_calls (trace (made h u c a nm drvs lst st)) =
     add_calls (trace st) @ [(c, a, nm, units st, class_drivers st c @ map (slot u drvs) lst)]"
  by (simp add: made_def Let_def add_calls_append)

lemma discovered_frame [simp]:
  "temperature_list (discovered h u st) = temperature_list st"
  "humidity_list (discovered h u st) = humidity_list st"
  "pressure_list (discovered h u st) = pressure_list st"
  "wind_list (discovered h u st) = wind_list st"
  "rain_list (discovered h u st) = rain_list st"
  "light_list (discovered h u st) = light_list st"
  "lightning_list (discovered h u st) = lightning_list st"
  "units (discovered h u st) = units st"
  "ip (discovered h u st) = ip st"
  "myConfig (discovered h u st) = myConfig st"
  by (simp_all add: discovered_def)

lemma discovered_resolvable: "resolvable u (discovered h u st) = resolvable u st"
  by (simp add: resolvable_def)

lemma discovered_add_calls:
  "add_calls (trace (discovered h u st)) = add_calls (trace st) @
     [(TemperatureNode, ''temperature'', ''Temperatures'', units st,
         class_drivers st TemperatureNode @ map (slot u (TEMP_DRVS u)) (temperature_list st)),
      (HumidityNode, ''humidity'', ''Humidity'', units st,
         class_drivers st HumidityNode @ map (slot u (HUMD_DRVS u)) (humidity_list st)),
      (PressureNode, ''pressure'', ''Barometric Pressure'', units st,
         class_drivers st PressureNode @ map (slot u (PRES_DRVS u)) (pressure_list st)),
      (WindNode, ''wind'', ''Wind'', units st,
         class_drivers st WindNode @ map (slot u (WIND_DRVS u)) (wind_list st)),
      (PrecipitationNode, ''rain'', ''Precipitation'', units st,
         class_drivers st PrecipitationNode @ map (slot u (RAIN_DRVS u)) (rain_list st)),
      (LightNode, ''light'', ''Illumination'', units st,
         class_drivers st LightNode @ map (slot u (LITE_DRVS u)) (light_list st))]"
  by (simp add: discovered_def made_add_calls made_class_drivers add_calls_append)

lemma discovered_nodes_copy:
  assumes "copies_drivers h"
  shows "nodes (discovered h u st) =
     AList.update ''light''
       \<lparr>node_cls = LightNode, node_address = ''light'', node_name = ''Illumination'',
        node_units = units st,
        node_drivers = Some (class_drivers st LightNode @ map (slot u (LITE_DRVS u)) (light_list st))\<rparr>
    (AList.update ''rain''
       \<lparr>node_cls = PrecipitationNode, node_address = ''rain'', node_name = ''Precipitation'',
        node_units = units st,
        node_drivers = Some (class_drivers st PrecipitationNode @ map (slot u (RAIN_DRVS u)) (rain_list st))\<rparr>
    (AList.update ''wind''
       \<lparr>node_cls = WindNode, node_address = ''wind'', node_name = ''Wind'',
        node_units = units st,
        node_drivers = Some (class_drivers st WindNode @ map (slot u (WIND_DRVS u)) (wind_list st))\<rparr>
    (AList.update ''pressure''
       \<lparr>node_cls = PressureNode, node_address = ''pressure'', node_name = ''Barometric Pressure'',
        node_units = units st,
        node_drivers = Some (class_drivers st PressureNode @ map (slot u (PRES_DRVS u)) (pressure_list st))\<rparr>
    (AList.update ''humidity''
       \<lparr>node_cls = HumidityNode, node_address = ''humidity'', node_name = ''Humidity'',
        node_units = units st,
        node_drivers = Some (class_drivers st HumidityNode @ map (slot u (HUMD_DRVS u)) (humidity_list st))\<rparr>
    (AList.update ''temperature''
       \<lparr>node_cls = TemperatureNode, node_address = ''temperature'', node_name = ''Temperatures'',
        node_units = units st,
        node_drivers = Some (class_drivers st TemperatureNode @ map (slot u (TEMP_DRVS u)) (temperature_list st))\<rparr>
       (nodes st))))))"
  and "class_drivers (discovered h u st) = class_drivers st"
  using assms by (simp_all add: discovered_def made_nodes made_class_drivers)

lemma discovered_nodes_shared:
  assumes "\<not> copies_drivers h"
  shows "nodes (discovered h u st) =
     AList.update ''light''
       \<lparr>node_cls = LightNode, node_address = ''light'', node_name = ''Illumination'',
        node_units = units st, node_drivers = None\<rparr>
    (AList.update ''rain''
       \<lparr>node_cls = PrecipitationNode, node_address = ''rain'', node_name = ''Precipitation'',
        node_units = units st, node_drivers = None\<rparr>
    (AList.update ''wind''
       \<lparr>node_cls = WindNode, node_address = ''wind'', node_name = ''Wind'',
        node_units = units st, node_drivers = None\<rparr>
    (AList.update ''pressure''
       \<lparr>node_cls = PressureNode, node_address = ''pressure'', node_name = ''Barometric Pressure'',
        node_units = units st, node_drivers = None\<rparr>
    (AList.update ''humidity''
       \<lparr>node_cls = HumidityNode, node_address = ''humidity'', node_name = ''Humidity'',
        node_units = units st, node_drivers = None\<rparr>
    (AList.update ''temperature''
       \<lparr>node_cls = TemperatureNode, node_address = ''temperature'', node_name = ''Temperatures'',
        node_units = units st, node_drivers = None\<rparr>
       (nodes st))))))"
  using assms by (simp_all add: discovered_def made_nodes made_class_drivers)

lemma discovered_nodes_again: "nodes (discovered h u (discovered h u st)) = nodes (discovered h u st)"
proof (cases "copies_drivers h")
  case True
  show ?thesis
    apply (subst discovered_nodes_copy(1) [OF True])
    apply (simp add: discovered_nodes_copy(2) [OF True])
    apply (simp add: discovered_nodes_copy(1) [OF True] update_triv update_conv')
    done
next
  case False
  show ?thesis
    apply (subst discovered_nodes_shared [OF False])
    apply (simp add: discovered_nodes_shared [OF False] update_triv update_conv')
    done
qed

lemma discovered_ready: "nodes_ready (discovered h u st)"
  by (cases "copies_drivers h")
     (simp_all add: nodes_ready_def node_specs_def discovered_nodes_copy discovered_nodes_shared
        update_conv')

lemma discovered_lightning:
  "map_of (nodes (discovered h u st)) ''lightning'' = map_of (nodes st) ''lightning''"
  by (cases "copies_drivers h")
     (simp_all add: discovered_nodes_copy discovered_nodes_shared update_conv')

subsection \<open>Configuration steps\<close>

lemma resolves_update:
  assumes "resolves u drvs lst" and "map_of drvs k \<noteq> None" and "map_of (UOM u) v \<noteq> None"
  shows "resolves u drvs (AList.update k v lst)"
  using assms by (induction lst) (auto simp: resolves_def)

lemma setup_nodedefs_explicit:
  "setup_nodedefs h st =
     st\<lparr>temperature_list :=
            AList.update ''windchill'' ''I_TEMP_F''
              (AList.update ''dewpoint'' ''I_TEMP_F''
                (AList.update ''main'' ''I_TEMP_F'' (temperature_list st))),
        humidity_list := AList.update ''main'' ''I_HUMIDITY'' (humidity_list st),
        pressure_list :=
          AList.update ''sealevel'' ''I_INHG''
            (AList.update ''station'' ''I_INHG'' (pressure_list st)),
        wind_list :=
          AList.update ''winddir'' ''I_DEGREE''
            (AList.update ''gustspeed'' ''I_MPH''
              (AList.update ''windspeed'' ''I_MPH'' (wind_list st))),
        rain_list :=
          AList.update ''total'' ''I_INCHES''
            (AList.update ''rate'' ''I_INHR'' (rain_list st)),
        light_list :=
          AList.update ''solar_radiation'' ''I_RADIATION''
            (AList.update ''uv'' ''I_UV'' (light_list st)),
        trace := trace st @
          [LogInfo ''Creating node definition profile based on config.'',
           WriteProfile
             (AList.update ''windchill'' ''I_TEMP_F''
               (AList.update ''dewpoint'' ''I_TEMP_F''
                 (AList.update ''main'' ''I_TEMP_F'' (temperature_list st))))
             (AList.update ''main'' ''I_HUMIDITY'' (humidity_list st))
             (AList.update ''sealevel'' ''I_INHG''
               (AList.update ''station'' ''I_INHG'' (pressure_list st)))
             (AList.update ''winddir'' ''I_DEGREE''
               (AList.update ''gustspeed'' ''I_MPH''
                 (AList.update ''windspeed'' ''I_MPH'' (wind_list st))))
             (AList.update ''total'' ''I_INCHES''
               (AList.update ''rate'' ''I_INHR'' (rain_list st)))
             (AList.update ''solar_radiation'' ''I_RADIATION''
               (AList.update ''uv'' ''I_UV'' (light_list st)))
             (lightning_list st),
           InstallProfile]
          @ (if install_ok h then [] else [LogError ''Failed up push profile to ISY'' None])\<rparr>"
  by (simp add: setup_nodedefs_def Let_def write_profile_def emit_def)

lemma setup_nodedefs_frame [simp]:
  "ip (setup_nodedefs h st) = ip st"
  "units (setup_nodedefs h st) = units st"
  "myConfig (setup_nodedefs h st) = myConfig st"
  "nodes (setup_nodedefs h st) = nodes st"
  "class_drivers (setup_nodedefs h st) = class_drivers st"
  "lightning_list (setup_nodedefs h st) = lightning_list st"
  by (simp_all add: setup_nodedefs_explicit)

lemma setup_nodedefs_resolvable:
  assumes "tables_ok u" and "resolvable u st"
  shows "resolvable u (setup_nodedefs h st)"
proof -
  have d: "drivers_ok u" and v: "units_ok u" using assms(1) by (simp_all add: tables_ok_def)
  have t: "map_of (TEMP_DRVS u) ''main'' \<noteq> None" "map_of (TEMP_DRVS u) ''dewpoint'' \<noteq> None"
    "map_of (TEMP_DRVS u) ''windchill'' \<noteq> None" "map_of (HUMD_DRVS u) ''main'' \<noteq> None"
    "map_of (PRES_DRVS u) ''station'' \<noteq> None" "map_of (PRES_DRVS u) ''sealevel'' \<noteq> None"
    "map_of (WIND_DRVS u) ''windspeed'' \<noteq> None" "map_of (WIND_DRVS u) ''gustspeed'' \<noteq> None"
    "map_of (WIND_DRVS u) ''winddir'' \<noteq> None" "map_of (RAIN_DRVS u) ''rate'' \<noteq> None"
    "map_of (RAIN_DRVS u) ''total'' \<noteq> None" "map_of (LITE_DRVS u) ''uv'' \<noteq> None"
    "map_of (LITE_DRVS u) ''solar_radiation'' \<noteq> None"
    using d by (simp_all add: drivers_ok_def poll_rows_def)
  have w: "map_of (UOM u) ''I_TEMP_F'' \<noteq> None" "map_of (UOM u) ''I_HUMIDITY'' \<noteq> None"
    "map_of (UOM u) ''I_INHG'' \<noteq> None" "map_of (UOM u) ''I_MPH'' \<noteq> None"
    "map_of (UOM u) ''I_DEGREE'' \<noteq> None" "map_of (UOM u) ''I_INHR'' \<noteq> None"
    "map_of (UOM u) ''I_INCHES'' \<noteq> None" "map_of (UOM u) ''I_UV'' \<noteq> None"
    "map_of (UOM u) ''I_RADIATION'' \<noteq> None"
    using v by (simp_all add: units_ok_def)
  show ?thesis
    using assms(2) unfolding resolvable_def setup_nodedefs_explicit
    by (simp add: resolves_update t w)
qed

lemma set_configuration_frame [simp]:
  "temperature_list (set_configuration cp st) = temperature_list st"
  "humidity_list (set_configuration cp st) = humidity_list st"
  "pressure_list (set_configuration cp st) = pressure_list st"
  "wind_list (set_configuration cp st) = wind_list st"
  "rain_list (set_configuration cp st) = rain_list st"
  "light_list (set_configuration cp st) = light_list st"
  "lightning_list (set_configuration cp st) = lightning_list st"
  "myConfig (set_configuration cp st) = myConfig st"
  "nodes (set_configuration cp st) = nodes st"
  "class_drivers (set_configuration cp st) = class_drivers st"
  "trace (set_configuration cp st) = trace st @ [LogInfo ''Check for existing configuration value'']"
  "ip (set_configuration cp st) = (case map_of cp ''IPAddress'' of Some a \<Rightarrow> a | None \<Rightarrow> [])"
  "units (set_configuration cp st) = (case map_of cp ''Units'' of Some v \<Rightarrow> v | None \<Rightarrow> ''us'')"
  by (simp_all add: set_configuration_def Let_def emit_def split: option.splits)

lemma set_configuration_resolvable: "resolvable u (set_configuration cp st) = resolvable u st"
  by (simp add: resolvable_def)

lemma emit_resolvable: "resolvable u (emit c st) = resolvable u st"
  by (simp add: resolvable_def)

lemma notices_after_append:
  "notices_after ns (xs @ ys) = notices_after (notices_after ns xs) ys"
  by (induction ns xs rule: notices_after.induct) simp_all

lemma made_trace_ex: "\<exists>c. trace (made h u c0 a nm drvs lst st) = trace st @ [c]"
  by (simp add: made_def Let_def emit_def)

lemma discovered_trace_ex: "\<exists>D. trace (discovered h u st) = trace st @ D"
proof -
  define s0 where "s0 = emit (LogInfo ''Creating nodes.'') st"
  define s1 where "s1 = made h u TemperatureNode ''temperature'' ''Temperatures'' (TEMP_DRVS u) (temperature_list st) s0"
  define s2 where "s2 = made h u HumidityNode ''humidity'' ''Humidity'' (HUMD_DRVS u) (humidity_list st) s1"
  define s3 where "s3 = made h u PressureNode ''pressure'' ''Barometric Pressure'' (PRES_DRVS u) (pressure_list st) s2"
  define s4 where "s4 = made h u WindNode ''wind'' ''Wind'' (WIND_DRVS u) (wind_list st) s3"
  define s5 where "s5 = made h u PrecipitationNode ''rain'' ''Precipitation'' (RAIN_DRVS u) (rain_list st) s4"
  define s6 where "s6 = made h u LightNode ''light'' ''Illumination'' (LITE_DRVS u) (light_list st) s5"
  have 0: "trace s0 = trace st @ [LogInfo ''Creating nodes.'']" by (simp add: s0_def)
  obtain c1 where 1: "trace s1 = trace s0 @ [c1]" unfolding s1_def using made_trace_ex by blast
  obtain c2 where 2: "trace s2 = trace s1 @ [c2]" unfolding s2_def using made_trace_ex by blast
  obtain c3 where 3: "trace s3 = trace s2 @ [c3]" unfolding s3_def using made_trace_ex by blast
  obtain c4 where 4: "trace s4 = trace s3 @ [c4]" unfolding s4_def using made_trace_ex by blast
  obtain c5 where 5: "trace s5 = trace s4 @ [c5]" unfolding s5_def using made_trace_ex by blast
  obtain c6 where 6: "trace s6 = trace s5 @ [c6]" unfolding s6_def using made_trace_ex by blast
  have "discovered h u st = s6"
    by (simp only: discovered_def s0_def s1_def s2_def s3_def s4_def s5_def s6_def)
  then show ?thesis using 0 1 2 3 4 5 6 by simp
qed

lemma process_config_changed:
  assumes "customParams cfg = Some cp" and "\<not> dict_eq cp (myConfig st)"
    and "tables_ok u" and "resolvable u st"
  shows "process_config h u cfg st =
           (Ok (), (if ip (reconfigured h u cp st) = []
                    then emit (AddNotice ip_notice) else (\<lambda>s. s))
                     (emit RemoveNoticesAll ((reconfigured h u cp st)\<lparr>myConfig := cp\<rparr>)))"
proof -
  let ?s2 = "setup_nodedefs h (set_configuration cp
               (emit (LogInfo ''New configuration, updating configuration'') st))"
  have "resolvable u ?s2"
    using assms(3,4)
    by (simp add: setup_nodedefs_resolvable set_configuration_resolvable emit_resolvable)
  then have "discover h u ?s2 = (Ok (), discovered h u ?s2)"
    by (rule discover_discovered)
  then show ?thesis
    using assms(1,2) by (simp add: process_config_def reconfigured_def Let_def emit_def)
qed

subsection \<open>Claims on discovery\<close>

lemma new_calls_append: "trace st' = trace st @ X \<Longrightarrow> new_calls st st' = X"
  by (simp add: new_calls_def)

lemma discovered_new_add_calls:
  "add_calls (new_calls st (discovered h u st)) =
     [(TemperatureNode, ''temperature'', ''Temperatures'', units st,
         class_drivers st TemperatureNode @ map (slot u (TEMP_DRVS u)) (temperature_list st)),
      (HumidityNode, ''humidity'', ''Humidity'', units st,
         class_drivers st HumidityNode @ map (slot u (HUMD_DRVS u)) (humidity_list st)),
      (PressureNode, ''pressure'', ''Barometric Pressure'', units st,
         class_drivers st PressureNode @ map (slot u (PRES_DRVS u)) (pressure_list st)),
      (WindNode, ''wind'', ''Wind'', units st,
         class_drivers st WindNode @ map (slot u (WIND_DRVS u)) (wind_list st)),
      (PrecipitationNode, ''rain'', ''Precipitation'', units st,
         class_drivers st PrecipitationNode @ map (slot u (RAIN_DRVS u)) (rain_list st)),
      (LightNode, ''light'', ''Illumination'', units st,
         class_drivers st LightNode @ map (slot u (LITE_DRVS u)) (light_list st))]"
proof -
  obtain D where D: "trace (discovered h u st) = trace st @ D"
    using discovered_trace_ex by blast
  have "add_calls (trace (discovered h u st)) = add_calls (trace st) @ add_calls D"
    by (simp add: D add_calls_append)
  then show ?thesis
    by (simp add: new_calls_append [OF D] discovered_add_calls)
qed

text \<open>
  What \<open>discover\<close> hands the host. Whenever every enabled sub-measurement has a driver
  code and a unit code in the tables of \<open>uom\<close>, \<open>discover\<close> returns after six calls
  of \<open>addNode\<close>, in this order: temperature, humidity, pressure, wind, rain (the
  precipitation node) and light. Each node carries the units of the controller and the
  driver list of its class followed by one slot per enabled sub-measurement, with value 0
  and the unit code looked up in \<open>uom.UOM\<close>. What the host has under the address
  \<open>lightning\<close> is left as it was.
\<close>

theorem discover_builds_six_nodes:
  assumes "resolvable u st"
  shows "fst (discover h u st) = Ok () \<and>
     add_calls (new_calls st (snd (discover h u st))) =
       [(TemperatureNode, ''temperature'', ''Temperatures'', units st,
           class_drivers st TemperatureNode @ map (slot u (TEMP_DRVS u)) (temperature_list st)),
        (HumidityNode, ''humidity'', ''Humidity'', units st,
           class_drivers st HumidityNode @ map (slot u (HUMD_DRVS u)) (humidity_list st)),
        (PressureNode, ''pressure'', ''Barometric Pressure'', units st,
           class_drivers st PressureNode @ map (slot u (PRES_DRVS u)) (pressure_list st)),
        (WindNode, ''wind'', ''Wind'', units st,
           class_drivers st WindNode @ map (slot u (WIND_DRVS u)) (wind_list st)),
        (PrecipitationNode, ''rain'', ''Precipitation'', units st,
           class_drivers st PrecipitationNode @ map (slot u (RAIN_DRVS u)) (rain_list st)),
        (LightNode, ''light'', ''Illumination'', units st,
           class_drivers st LightNode @ map (slot u (LITE_DRVS u)) (light_list st))] \<and>
     nodes_ready (snd (discover h u st)) \<and>
     map_of (nodes (snd (discover h u st))) ''lightning'' = map_of (nodes st) ''lightning''"
  by (simp add: discover_discovered [OF assms] discovered_new_add_calls discovered_ready
        discovered_lightning)

lemma configured_eval:
  "configured c =
     \<lparr>ip = ''192.168.1.50'', units = ''us'',
      temperature_list = [(''main'', ''I_TEMP_F''), (''dewpoint'', ''I_TEMP_F''), (''windchill'', ''I_TEMP_F'')],
      humidity_list = [(''main'', ''I_HUMIDITY'')],
      pressure_list = [(''station'', ''I_INHG''), (''sealevel'', ''I_INHG'')],
      wind_list = [(''windspeed'', ''I_MPH''), (''gustspeed'', ''I_MPH''), (''winddir'', ''I_DEGREE'')],
      rain_list = [(''rate'', ''I_INHR''), (''total'', ''I_INCHES'')],
      light_list = [(''uv'', ''I_UV''), (''solar_radiation'', ''I_RADIATION'')],
      lightning_list = [], myConfig = [], nodes = [], class_drivers = class_drivers0,
      trace = [LogInfo ''Check for existing configuration value'',
               LogInfo ''Creating node definition profile based on config.'',
               WriteProfile
                 [(''main'', ''I_TEMP_F''), (''dewpoint'', ''I_TEMP_F''), (''windchill'', ''I_TEMP_F'')]
                 [(''main'', ''I_HUMIDITY'')]
                 [(''station'', ''I_INHG''), (''sealevel'', ''I_INHG'')]
                 [(''windspeed'', ''I_MPH''), (''gustspeed'', ''I_MPH''), (''winddir'', ''I_DEGREE'')]
                 [(''rate'', ''I_INHR''), (''total'', ''I_INCHES'')]
                 [(''uv'', ''I_UV''), (''solar_radiation'', ''I_RADIATION'')] [],
               InstallProfile]\<rparr>"
  by (simp add: configured_def setup_nodedefs_explicit sample_host_def init_def
        set_configuration_def emit_def)

lemma configured_resolvable: "resolvable sample_uom (configured c)"
  by (simp add: configured_eval resolvable_def resolves_def sample_uom_def)

text \<open>The theorem at the configured start state, with the sample tables.\<close>

theorem discover_builds_six_nodes_witness:
  "resolvable sample_uom (configured True) \<and>
   fst (discover (sample_host True) sample_uom (configured True)) = Ok () \<and>
   add_calls (new_calls (configured True)
      (snd (discover (sample_host True) sample_uom (configured True)))) =
     [(TemperatureNode, ''temperature'', ''Temperatures'', ''us'',
         [\<lparr>drv_code = ''ST'', drv_value = Fin 0, drv_uom = 17\<rparr>,
          \<lparr>drv_code = ''GV0'', drv_value = Fin 0, drv_uom = 17\<rparr>,
          \<lparr>drv_code = ''GV1'', drv_value = Fin 0, drv_uom = 17\<rparr>]),
      (HumidityNode, ''humidity'', ''Humidity'', ''us'',
         [\<lparr>drv_code = ''ST'', drv_value = Fin 0, drv_uom = 22\<rparr>,
          \<lparr>drv_code = ''ST'', drv_value = Fin 0, drv_uom = 22\<rparr>]),
      (PressureNode, ''pressure'', ''Barometric Pressure'', ''us'',
         [\<lparr>drv_code = ''ST'', drv_value = Fin 0, drv_uom = 23\<rparr>,
          \<lparr>drv_code = ''GV0'', drv_value = Fin 0, drv_uom = 23\<rparr>]),
      (WindNode, ''wind'', ''Wind'', ''us'',
         [\<lparr>drv_code = ''ST'', drv_value = Fin 0, drv_uom = 48\<rparr>,
          \<lparr>drv_code = ''GV1'', drv_value = Fin 0, drv_uom = 48\<rparr>,
          \<lparr>drv_code = ''GV0'', drv_value = Fin 0, drv_uom = 14\<rparr>]),
      (PrecipitationNode, ''rain'', ''Precipitation'', ''us'',
         [\<lparr>drv_code = ''ST'', drv_value = Fin 0, drv_uom = 24\<rparr>,
          \<lparr>drv_code = ''GV5'', drv_value = Fin 0, drv_uom = 105\<rparr>]),
      (LightNode, ''light'', ''Illumination'', ''us'',
         [\<lparr>drv_code = ''ST'', drv_value = Fin 0, drv_uom = 71\<rparr>,
          \<lparr>drv_code = ''GV0'', drv_value = Fin 0, drv_uom = 74\<rparr>])]"
proof -
  have r: "resolvable sample_uom (configured True)"
    by (rule configured_resolvable)
  note t = discover_builds_six_nodes [OF r, where h = "sample_host True"]
  show ?thesis
    apply (intro conjI)
      apply (rule r)
     apply (rule t [THEN conjunct1])
    apply (subst t [THEN conjunct2, THEN conjunct1])
    apply (simp add: configured_eval slot_def sample_uom_def)
    done
qed

text \<open>
  Claim C2 on the code. The module defines the class \<open>LightningNode\<close> and the table
  \<open>lightning_list\<close>, and the docstring of \<open>discover\<close> lists the lightning node among
  those it adds, but \<open>discover\<close> has no block for it: after configuration, discovery
  hands the host six nodes, none of class \<open>LightningNode\<close>, and no node is filed under
  \<open>lightning\<close>. The seventh node of the claim is missing.
\<close>

theorem discover_omits_lightning:
  "map fst (add_calls (new_calls (configured True)
      (snd (discover (sample_host True) sample_uom (configured True)))))
     = [TemperatureNode, HumidityNode, PressureNode, WindNode, PrecipitationNode, LightNode] \<and>
   map_of (nodes (snd (discover (sample_host True) sample_uom (configured True)))) ''lightning''
     = None"
  unfolding discover_discovered [OF configured_resolvable] snd_conv discovered_new_add_calls
    discovered_lightning
  by (simp add: configured_eval)

lemma discovered_class_drivers_shared:
  assumes "\<not> copies_drivers h"
  shows "class_drivers (discovered h u st) =
     (class_drivers st)
       (TemperatureNode := class_drivers st TemperatureNode @ map (slot u (TEMP_DRVS u)) (temperature_list st),
        HumidityNode := class_drivers st HumidityNode @ map (slot u (HUMD_DRVS u)) (humidity_list st),
        PressureNode := class_drivers st PressureNode @ map (slot u (PRES_DRVS u)) (pressure_list st),
        WindNode := class_drivers st WindNode @ map (slot u (WIND_DRVS u)) (wind_list st),
        PrecipitationNode := class_drivers st PrecipitationNode @ map (slot u (RAIN_DRVS u)) (rain_list st),
        LightNode := class_drivers st LightNode @ map (slot u (LITE_DRVS u)) (light_list st))"
  using assms by (simp add: discovered_def made_class_drivers)

text \<open>
  Claim C3. A second \<open>discover\<close> returns as the first did and files the same nodes
  under the same addresses: same classes, names and units. The driver list of a node is
  the one its instance reads; with the constructor of the host's \<open>Node\<close> class binding
  \<open>drivers\<close> to a copy owned by the instance, the driver lists after two discoveries
  are those after one.
\<close>

theorem discover_twice:
  assumes "resolvable u st"
  shows "fst (discover h u (snd (discover h u st))) = Ok () \<and>
     nodes (snd (discover h u (snd (discover h u st)))) = nodes (snd (discover h u st)) \<and>
     (copies_drivers h \<longrightarrow>
        node_table (snd (discover h u (snd (discover h u st))))
          = node_table (snd (discover h u st)))"
proof -
  have 1: "discover h u st = (Ok (), discovered h u st)"
    by (rule discover_discovered [OF assms])
  have "resolvable u (discovered h u st)"
    using assms by (simp add: discovered_resolvable)
  then have 2: "discover h u (discovered h u st) = (Ok (), discovered h u (discovered h u st))"
    by (rule discover_discovered)
  have 3: "node_table (discovered h u (discovered h u st)) = node_table (discovered h u st)"
    if "copies_drivers h"
  proof -
    have cd: "class_drivers (discovered h u (discovered h u st)) = class_drivers (discovered h u st)"
      by (simp add: discovered_nodes_copy(2) [OF that])
    show ?thesis
      unfolding node_table_def drivers_of_def discovered_nodes_again cd by (rule refl)
  qed
  show ?thesis
    by (simp add: 1 2 3 discovered_nodes_again)
qed

text \<open>The theorem on a host that copies, at the configured start state.\<close>

theorem discover_twice_witness:
  "resolvable sample_uom (configured True) \<and>
   copies_drivers (sample_host True) \<and>
   node_table (snd (discover (sample_host True) sample_uom
       (snd (discover (sample_host True) sample_uom (configured True)))))
     = node_table (snd (discover (sample_host True) sample_uom (configured True))) \<and>
   map fst (node_table (snd (discover (sample_host True) sample_uom (configured True))))
     = [''temperature'', ''humidity'', ''pressure'', ''wind'', ''rain'', ''light'']"
proof -
  have r: "resolvable sample_uom (configured True)"
    by (rule configured_resolvable)
  have c: "copies_drivers (sample_host True)"
    by (simp add: sample_host_def)
  note t = discover_twice [OF r, where h = "sample_host True"]
  have n: "map fst (node_table (snd (discover (sample_host True) sample_uom (configured True))))
     = [''temperature'', ''humidity'', ''pressure'', ''wind'', ''rain'', ''light'']"
    unfolding discover_discovered [OF r] snd_conv node_table_def discovered_nodes_copy(1) [OF c]
    by (simp add: configured_eval)
  show ?thesis
    using r c t n by blast
qed

text \<open>
  The other value of the parameter, for the record: were the instances to read the
  \<open>drivers\<close> list of their class, the second discovery would append the same slots to
  the same lists, and the temperature node would have three drivers after one discovery
  and six after two.
\<close>

lemma discover_twice_shared_lists:
  "map (length \<circ> snd \<circ> snd \<circ> snd \<circ> snd)
     (node_table (snd (discover (sample_host False) sample_uom (configured False))))
     = [3, 2, 2, 3, 2, 2] \<and>
   map (length \<circ> snd \<circ> snd \<circ> snd \<circ> snd)
     (node_table (snd (discover (sample_host False) sample_uom
        (snd (discover (sample_host False) sample_uom (configured False))))))
     = [6, 3, 4, 6, 4, 4] \<and>
   node_table (snd (discover (sample_host False) sample_uom
        (snd (discover (sample_host False) sample_uom (configured False)))))
     \<noteq> node_table (snd (discover (sample_host False) sample_uom (configured False)))"
proof -
  have r: "resolvable sample_uom (configured False)"
    by (rule configured_resolvable)
  have c: "\<not> copies_drivers (sample_host False)"
    by (simp add: sample_host_def)
  have r2: "resolvable sample_uom (discovered (sample_host False) sample_uom (configured False))"
    using r by (simp add: discovered_resolvable)
  have a: "map (length \<circ> snd \<circ> snd \<circ> snd \<circ> snd)
     (node_table (snd (discover (sample_host False) sample_uom (configured False))))
     = [3, 2, 2, 3, 2, 2]"
    unfolding discover_discovered [OF r] snd_conv node_table_def
      discovered_nodes_shared [OF c]
    by (simp add: drivers_of_def discovered_class_drivers_shared [OF c] configured_eval)
  have b: "map (length \<circ> snd \<circ> snd \<circ> snd \<circ> snd)
     (node_table (snd (discover (sample_host False) sample_uom
        (snd (discover (sample_host False) sample_uom (configured False))))))
     = [6, 3, 4, 6, 4, 4]"
    unfolding discover_discovered [OF r] snd_conv discover_discovered [OF r2] node_table_def
      discovered_nodes_again discovered_nodes_shared [OF c]
    by (simp add: drivers_of_def discovered_class_drivers_shared [OF c] configured_eval)
  from a b show ?thesis by auto
qed

subsection \<open>Claims on polling\<close>

lemma float_limit_ge: "(2::real) ^ 970 \<le> float_limit"
proof -
  have e: "(1024::nat) = 970 + 54" by simp
  have p: "(2::real) ^ 1024 = 2 ^ 970 * 2 ^ 54"
    by (subst e) (rule power_add)
  have "(2::real) ^ 970 * 1 \<le> 2 ^ 970 * (2 ^ 54 - 1)"
    by (rule mult_left_mono) simp_all
  then show ?thesis
    unfolding float_limit_def p by (simp only: right_diff_distrib mult_1_right)
qed

lemma float_limit_gt: "(1000000::real) < float_limit"
proof -
  have "(1000000::real) < 2 ^ 20" by simp
  also have "(2::real) ^ 20 \<le> 2 ^ 970" by (rule power_increasing) simp_all
  also note float_limit_ge
  finally show ?thesis .
qed

lemma fl_small: "\<bar>x\<bar> \<le> 1000000 \<Longrightarrow> fl x = Fin (rnd64 x)"
  using float_limit_gt by (auto simp: fl_def)

lemma round_half_even_of_int: "round_half_even (of_int z) = z"
  by (simp add: round_half_even_def)

lemma bexp_eq:
  assumes "2 powi e \<le> \<bar>x\<bar>" and "\<bar>x\<bar> < 2 powi (e + 1)" and "- 1022 \<le> e"
  shows "bexp x = e"
proof -
  have pos: "0 < \<bar>x\<bar>"
    using assms(1) by (smt (verit) zero_less_power_int zero_less_numeral)
  have "(2::real) powr (of_int e) = 2 powi e"
    by (simp add: powr_real_of_int')
  moreover have "(2::real) powr (of_int e + 1) = 2 powi (e + 1)"
    using powr_real_of_int' [of "2::real" "e + 1"] by simp
  ultimately have "\<lfloor>log 2 \<bar>x\<bar>\<rfloor> = e"
    using assms(1,2) pos by (subst floor_log_eq_powr_iff) simp_all
  then show ?thesis
    using assms(3) by (simp add: bexp_def)
qed

lemma rnd64_eval:
  assumes "2 powi e \<le> \<bar>x\<bar>" and "\<bar>x\<bar> < 2 powi (e + 1)" and "- 1022 \<le> e"
  shows "rnd64 x = of_int (round_half_even (x / 2 powi (e - 52))) * 2 powi (e - 52)"
proof -
  have "x \<noteq> 0"
    using assms(1) by (smt (verit) zero_less_power_int zero_less_numeral)
  then show ?thesis
    by (simp add: rnd64_def bexp_eq [OF assms])
qed

lemma rnd64_of_int:
  assumes "\<bar>of_int m :: real\<bar> < 2 ^ 53"
  shows "rnd64 (of_int m) = of_int m"
proof (cases "m = 0")
  case True
  then show ?thesis by (simp add: rnd64_def)
next
  case False
  define a where "a = \<bar>of_int m :: real\<bar>"
  define e where "e = \<lfloor>log 2 a\<rfloor>"
  have a1: "1 \<le> a"
    using False by (simp add: a_def)
  then have "0 \<le> log 2 a" by simp
  then have e0: "0 \<le> e" by (simp add: e_def)
  have "a < 2 powr 53"
    using assms by (simp add: a_def)
  then have "log 2 a < 53"
    using a1 by (subst log_less_iff) simp_all
  then have e52: "e \<le> 52" unfolding e_def by linarith
  have b: "bexp (of_int m) = e"
    using e0 by (simp add: bexp_def e_def a_def)
  define n where "n = nat (52 - e)"
  have p: "(2::real) powi (e - 52) = 1 / 2 ^ n"
    using e52 by (simp add: power_int_def n_def inverse_eq_divide power_one_over nat_diff_distrib')
  have "of_int m / (2::real) powi (e - 52) = of_int (m * 2 ^ n)"
    by (simp add: p)
  then have "round_half_even (of_int m / (2::real) powi (e - 52)) = m * 2 ^ n"
    by (simp only: round_half_even_of_int)
  then show ?thesis
    using False by (simp add: rnd64_def b p)
qed

lemma rnd64_numeral:
  "numeral k < (9007199254740992::real) \<Longrightarrow> rnd64 (numeral k) = numeral k"
  "numeral k < (9007199254740992::real) \<Longrightarrow> rnd64 (- numeral k) = - numeral k"
  "rnd64 0 = 0" "rnd64 1 = 1"
  using rnd64_of_int [of "numeral k"] rnd64_of_int [of "- numeral k"] rnd64_of_int [of 1]
  by (simp_all add: rnd64_def)

lemma rnd64_quarter: "rnd64 (1 / 4) = 1 / 4"
  by (subst rnd64_eval [where e = "- 2"]) (simp_all add: round_half_even_def power_int_minus)

lemma rnd64_f_to_c_zero: "rnd64 (- (160 / 9)) = - 5003999585967218 / 2 ^ 48"
  by (subst rnd64_eval [where e = 4]) (simp_all add: round_half_even_def power_int_minus)

lemmas float_arith =
  f_to_c_def fsub_def lit_def fl_small rnd64_numeral rnd64_quarter

lemmas float_eval =
  convert_to_float_def float_of_string_def sign_of_def strip_def is_space_def decimal_def
  is_digit_def exponent_def scale10_def nat_of_digits_def digit_val_def lower_def float_arith

lemma f_to_c_zero: "f_to_c (Fin 0) = Fin (- 5003999585967218 / 2 ^ 48)"
  by (simp add: float_arith rnd64_f_to_c_zero)

lemma malformed_zero:
  assumes "py_float v = Inl e"
  shows "convert_to_float v = Fin 0"
    and "f_to_c (convert_to_float v) = Fin (- 5003999585967218 / 2 ^ 48)"
    and "py_round1 (f_to_c (convert_to_float v)) = Fin (- 17.8)"
  using assms
  by (simp_all add: convert_to_float_def f_to_c_zero round1_def round_half_even_def)

lemma write_row_prefix: "\<exists>X. trace (snd (write_row data r st)) = trace st @ X"
proof -
  obtain a drvs name field temp where r: "r = (a, drvs, name, field, temp)"
    by (cases r) auto
  show ?thesis
    by (simp add: r setDriver_emit split: outcome.splits)
qed

lemma write_rows_prefix: "\<exists>X. trace (snd (write_rows data rows st)) = trace st @ X"
proof (induction rows arbitrary: st)
  case Nil
  show ?case by simp
next
  case (Cons r rows)
  obtain o1 s1 where w: "write_row data r st = (o1, s1)" by (cases "write_row data r st")
  obtain X where X: "trace s1 = trace st @ X"
    using write_row_prefix [of data r st] w by auto
  obtain Y where Y: "trace (snd (write_rows data rows s1)) = trace s1 @ Y"
    using Cons.IH by blast
  show ?case
    using w X Y by (cases o1) simp_all
qed

lemma get_data_response:
  "\<exists>P. get_data (Response status body) st = (body, st\<lparr>trace := trace st @ P\<rparr>)
        \<and> set_calls P = []"
proof (cases "status = 200")
  case True
  then have "get_data (Response status body) st
      = (body, st\<lparr>trace := trace st @ [HttpGet (''http://'' @ ip st @ ''/wflexp.json'')]\<rparr>)"
    by (simp add: get_data_def emit_def)
  then show ?thesis by (metis set_calls.simps(1,8))
next
  case False
  then have "get_data (Response status body) st
      = (body, st\<lparr>trace := trace st @ [HttpGet (''http://'' @ ip st @ ''/wflexp.json''),
            Syslog ''Bad response from WiFiLogger2 '',
            Print '' -  Bad response from WiFiLogger2. '']\<rparr>)"
    by (simp add: get_data_def emit_def)
  moreover have "set_calls [HttpGet (''http://'' @ ip st @ ''/wflexp.json''),
            Syslog ''Bad response from WiFiLogger2 '',
            Print '' -  Bad response from WiFiLogger2. ''] = []"
    by simp
  ultimately show ?thesis by blast
qed

lemma longPoll_calls:
  assumes "ip st \<noteq> []" and "nodes_ready st" and "drivers_ok u"
  shows "set_calls (new_calls st (snd (longPoll (Response status (Ok (JObj kv))) u st)))
           = map (row_write kv) (takeWhile (present kv) (poll_rows u))"
proof -
  define s1 where "s1 = emit (LogInfo ''LongPoll'') st"
  obtain P where g: "get_data (Response status (Ok (JObj kv))) s1
                       = (Ok (JObj kv), s1\<lparr>trace := trace s1 @ P\<rparr>)"
    and P: "set_calls P = []"
    using get_data_response by blast
  define s2 where "s2 = s1\<lparr>trace := trace s1 @ P\<rparr>"
  have t2: "trace s2 = trace st @ [LogInfo ''LongPoll''] @ P"
    by (simp add: s2_def s1_def)
  have n2: "nodes s2 = nodes st"
    by (simp add: s2_def s1_def)
  have "nodes_ready s2"
    using assms(2) by (simp add: nodes_ready_def n2)
  then have ok: "\<forall>r \<in> set (poll_rows u). row_ok s2 r"
    using assms(3) by (rule ready_rows)
  obtain o3 s3 where w: "write_rows (JObj kv) (poll_rows u) s2 = (o3, s3)"
    by (cases "write_rows (JObj kv) (poll_rows u) s2")
  obtain X where X: "trace s3 = trace s2 @ X"
    using write_rows_prefix [of "JObj kv" "poll_rows u" s2] w by auto
  have "set_calls (trace s3)
          = set_calls (trace s2) @ map (row_write kv) (takeWhile (present kv) (poll_rows u))"
    using write_rows_calls [OF ok, of kv] w by simp
  then have sX: "set_calls X = map (row_write kv) (takeWhile (present kv) (poll_rows u))"
    by (simp add: X set_calls_append)
  have l: "longPoll (Response status (Ok (JObj kv))) u st
        = (Ok (), case o3 of
                    Raise e \<Rightarrow> emit (LogError ''Failure while parsing WiFiLogger2 data. '' (Some e)) s3
                  | Ok x \<Rightarrow> s3)"
    unfolding longPoll_def Let_def s1_def [symmetric] g s2_def [symmetric]
    using assms(1) w by (cases o3) simp_all
  have "\<exists>Z. trace (snd (longPoll (Response status (Ok (JObj kv))) u st)) = trace s3 @ Z
          \<and> set_calls Z = []"
    unfolding l by (cases o3) simp_all
  then obtain Z where Z: "trace (snd (longPoll (Response status (Ok (JObj kv))) u st)) = trace s3 @ Z"
    "set_calls Z = []"
    by blast
  have "trace (snd (longPoll (Response status (Ok (JObj kv))) u st))
          = trace st @ ([LogInfo ''LongPoll''] @ P @ X @ Z)"
    by (simp add: Z X t2)
  from new_calls_append [OF this] show ?thesis
    by (simp add: set_calls_append P Z sX)
qed

lemma row_write_eq:
  "row_write kv (a, drvs, name, field, temp) =
     (a, driver_code drvs name,
      if temp then py_round1 (f_to_c (field_value kv field)) else field_value kv field)"
  by (simp add: row_write_def driver_code_def field_value_def)

lemma ready_discovered: "ready c = discovered (sample_host c) sample_uom (configured c)"
  by (simp add: ready_def discover_discovered [OF configured_resolvable])

lemma ready_facts:
  "ip (ready c) \<noteq> []" "nodes_ready (ready c)" "drivers_ok sample_uom"
  by (simp_all add: ready_discovered discovered_ready configured_eval drivers_ok_def
        poll_rows_def sample_uom_def)

lemmas rows_eval =
  poll_rows_def present_def row_field_def row_write_def sample_uom_def

text \<open>
  Claim C1, as the code has it. \<open>longPoll\<close> returns normally on every response, state
  and table. On a payload that is a JSON object, polled with an endpoint, the six nodes
  of discovery and the thirteen driver names, the values handed to the host are those of
  the rows up to the first field that is absent from the payload: the \<open>KeyError\<close> of
  that field ends the mapping block, and neither it nor a later field is written. A field
  that is present and that \<open>float\<close> rejects is written as 0, and as \<open>-17.8\<close> on the
  three temperature rows (\<open>f_to_c(0)\<close> is the float nearest to \<open>-160/9\<close>, which the
  temperature node rounds); it does not keep the rows after it from being written.
\<close>

theorem longPoll_field_failures:
  "fst (longPoll resp u st0) = Ok () \<and>
   (ip st \<noteq> [] \<and> nodes_ready st \<and> drivers_ok u \<longrightarrow>
      set_calls (new_calls st (snd (longPoll (Response status (Ok (JObj kv))) u st)))
        = map (row_write kv) (takeWhile (present kv) (poll_rows u))) \<and>
   (map_of kv field = Some v \<and> py_float v = Inl e \<longrightarrow>
      row_write kv (a, drvs, name, field, temp)
        = (a, driver_code drvs name, if temp then Fin (- 17.8) else Fin 0))"
proof -
  have "row_write kv (a, drvs, name, field, temp)
          = (a, driver_code drvs name, if temp then Fin (- 17.8) else Fin 0)"
    if "map_of kv field = Some v" and "py_float v = Inl e"
    using that
    by (simp add: row_write_eq field_value_def malformed_zero(1) f_to_c_zero round1_def
          round_half_even_def)
  then show ?thesis
    by (simp add: longPoll_returns longPoll_calls)
qed

text \<open>
  The theorem on a payload whose \<open>dew\<close> is not a number and whose \<open>humout\<close> is
  missing: seven values are written, the dew point as \<open>-17.8\<close>, and nothing from
  \<open>humout\<close> on.
\<close>

theorem longPoll_field_failures_witness:
  "ip (ready True) \<noteq> [] \<and> nodes_ready (ready True) \<and> drivers_ok sample_uom \<and>
   map_of garbled_payload ''dew'' = Some (JStr ''--'') \<and>
   py_float (JStr ''--'') = Inl ValueError \<and>
   fst (longPoll (Response 200 (Ok (JObj garbled_payload))) sample_uom (ready True)) = Ok () \<and>
   set_calls (new_calls (ready True)
      (snd (longPoll (Response 200 (Ok (JObj garbled_payload))) sample_uom (ready True))))
     = [(''light'', ''ST'', Fin 3), (''light'', ''GV0'', Fin 450),
        (''rain'', ''ST'', Fin 0), (''rain'', ''GV5'', Fin 0.25),
        (''temperature'', ''GV0'', Fin (- 17.8)), (''temperature'', ''ST'', Fin 20),
        (''temperature'', ''GV1'', Fin 20)] \<and>
   row_write garbled_payload (''temperature'', TEMP_DRVS sample_uom, ''dewpoint'', ''dew'', True)
     = (''temperature'', ''GV0'', Fin (- 17.8))"
proof -
  note t = longPoll_field_failures [where u = sample_uom and st = "ready True"
      and kv = garbled_payload and status = 200 and field = "''dew''" and v = "JStr ''--''"
      and e = ValueError and resp = "Response 200 (Ok (JObj garbled_payload))"
      and ?st0.0 = "ready True" and a = "''temperature''" and drvs = "TEMP_DRVS sample_uom"
      and name = "''dewpoint''" and temp = True]
  have m: "map_of garbled_payload ''dew'' = Some (JStr ''--'')"
    by (simp add: garbled_payload_def)
  have p: "py_float (JStr ''--'') = Inl ValueError"
    by (simp add: float_eval)
  have c: "driver_code (TEMP_DRVS sample_uom) ''dewpoint'' = ''GV0''"
    by (simp add: driver_code_def sample_uom_def)
  have w: "map (row_write garbled_payload) (takeWhile (present garbled_payload) (poll_rows sample_uom))
     = [(''light'', ''ST'', Fin 3), (''light'', ''GV0'', Fin 450),
        (''rain'', ''ST'', Fin 0), (''rain'', ''GV5'', Fin 0.25),
        (''temperature'', ''GV0'', Fin (- 17.8)), (''temperature'', ''ST'', Fin 20),
        (''temperature'', ''GV1'', Fin 20)]"
    by (simp add: rows_eval garbled_payload_def float_eval rnd64_f_to_c_zero round1_def
          round_half_even_def)
  show ?thesis
    using t ready_facts(1,2) [of True] ready_facts(3) m p c w by simp
qed

text \<open>
  Claim C1 as stated fails on an absent field: with \<open>uv\<close> missing from the payload of
  the example, nothing is written, neither 0 for \<open>uv\<close> nor the well-formed
  \<open>tempout\<close>.
\<close>

theorem longPoll_absent_counterexample:
  "map_of payload_without_uv ''uv'' = None \<and>
   map_of payload_without_uv ''tempout'' = Some (JStr ''68.0'') \<and>
   set_calls (new_calls (ready True)
      (snd (longPoll (Response 200 (Ok (JObj payload_without_uv))) sample_uom (ready True))))
     = []"
proof -
  have "map (row_write payload_without_uv)
          (takeWhile (present payload_without_uv) (poll_rows sample_uom)) = []"
    by (simp add: rows_eval payload_without_uv_def sample_payload_def)
  then show ?thesis
    by (simp add: longPoll_calls [OF ready_facts] payload_without_uv_def sample_payload_def)
qed

text \<open>
  Claim C5. \<open>f_to_c(32)\<close> is 0 and \<open>f_to_c(212)\<close> is 100. On a payload that has the
  thirteen fields, the values handed to the host are the converted fields in the order of
  the source, with \<open>f_to_c\<close> applied on the rows of \<open>dew\<close>, \<open>tempout\<close> and
  \<open>chill\<close> (then rounded by the temperature node) and on no other row. With
  \<open>tempout\<close> "68.0" and \<open>dew\<close> "50" in such a payload, the main driver of the temperature node
  receives 20 and its dew point driver 10.
\<close>

theorem f_to_c_on_temperature_fields:
  "f_to_c (Fin 32) = Fin 0 \<and> f_to_c (Fin 212) = Fin 100 \<and>
   (ip st \<noteq> [] \<and> nodes_ready st \<and> drivers_ok u \<and> list_all (present kv) (poll_rows u) \<longrightarrow>
      set_calls (new_calls st (snd (longPoll (Response status (Ok (JObj kv))) u st))) =
        [(''light'', driver_code (LITE_DRVS u) ''uv'', field_value kv ''uv''),
         (''light'', driver_code (LITE_DRVS u) ''solar_radiation'', field_value kv ''solar''),
         (''rain'', driver_code (RAIN_DRVS u) ''rate'', field_value kv ''rainr''),
         (''rain'', driver_code (RAIN_DRVS u) ''total'', field_value kv ''rain24''),
         (''temperature'', driver_code (TEMP_DRVS u) ''dewpoint'',
            py_round1 (f_to_c (field_value kv ''dew''))),
         (''temperature'', driver_code (TEMP_DRVS u) ''main'',
            py_round1 (f_to_c (field_value kv ''tempout''))),
         (''temperature'', driver_code (TEMP_DRVS u) ''windchill'',
            py_round1 (f_to_c (field_value kv ''chill''))),
         (''humidity'', driver_code (HUMD_DRVS u) ''main'', field_value kv ''humout''),
         (''pressure'', driver_code (PRES_DRVS u) ''station'', field_value kv ''bartr''),
         (''pressure'', driver_code (PRES_DRVS u) ''sealevel'', field_value kv ''bar''),
         (''wind'', driver_code (WIND_DRVS u) ''windspeed'', field_value kv ''windspd''),
         (''wind'', driver_code (WIND_DRVS u) ''gustspeed'', field_value kv ''gust''),
         (''wind'', driver_code (WIND_DRVS u) ''winddir'', field_value kv ''winddir'')]) \<and>
   (ip st \<noteq> [] \<and> nodes_ready st \<and> drivers_ok u \<and> list_all (present kv) (poll_rows u) \<and>
    map_of kv ''tempout'' = Some (JStr ''68.0'') \<and> map_of kv ''dew'' = Some (JStr ''50'') \<longrightarrow>
      (''temperature'', driver_code (TEMP_DRVS u) ''main'', Fin 20)
        \<in> set (set_calls (new_calls st (snd (longPoll (Response status (Ok (JObj kv))) u st)))) \<and>
      (''temperature'', driver_code (TEMP_DRVS u) ''dewpoint'', Fin 10)
        \<in> set (set_calls (new_calls st (snd (longPoll (Response status (Ok (JObj kv))) u st)))))"
proof -
  have a: "f_to_c (Fin 32) = Fin 0" "f_to_c (Fin 212) = Fin 100"
    by (simp_all add: float_arith)
  have b: "map (row_write kv) (takeWhile (present kv) (poll_rows u)) =
        map (row_write kv) (poll_rows u)"
    if "list_all (present kv) (poll_rows u)"
  proof -
    have "takeWhile (present kv) (poll_rows u) = poll_rows u"
      using that by (simp add: takeWhile_eq_all_conv list_all_iff)
    then show ?thesis by (rule arg_cong)
  qed
  have c: "py_round1 (f_to_c (field_value kv ''tempout'')) = Fin 20"
    if "map_of kv ''tempout'' = Some (JStr ''68.0'')"
    using that by (simp add: field_value_def float_eval round1_def round_half_even_def)
  have d: "py_round1 (f_to_c (field_value kv ''dew'')) = Fin 10"
    if "map_of kv ''dew'' = Some (JStr ''50'')"
    using that by (simp add: field_value_def float_eval round1_def round_half_even_def)
  have e: "map (row_write kv) (poll_rows u) =
        [(''light'', driver_code (LITE_DRVS u) ''uv'', field_value kv ''uv''),
         (''light'', driver_code (LITE_DRVS u) ''solar_radiation'', field_value kv ''solar''),
         (''rain'', driver_code (RAIN_DRVS u) ''rate'', field_value kv ''rainr''),
         (''rain'', driver_code (RAIN_DRVS u) ''total'', field_value kv ''rain24''),
         (''temperature'', driver_code (TEMP_DRVS u) ''dewpoint'',
            py_round1 (f_to_c (field_value kv ''dew''))),
         (''temperature'', driver_code (TEMP_DRVS u) ''main'',
            py_round1 (f_to_c (field_value kv ''tempout''))),
         (''temperature'', driver_code (TEMP_DRVS u) ''windchill'',
            py_round1 (f_to_c (field_value kv ''chill''))),
         (''humidity'', driver_code (HUMD_DRVS u) ''main'', field_value kv ''humout''),
         (''pressure'', driver_code (PRES_DRVS u) ''station'', field_value kv ''bartr''),
         (''pressure'', driver_code (PRES_DRVS u) ''sealevel'', field_value kv ''bar''),
         (''wind'', driver_code (WIND_DRVS u) ''windspeed'', field_value kv ''windspd''),
         (''wind'', driver_code (WIND_DRVS u) ''gustspeed'', field_value kv ''gust''),
         (''wind'', driver_code (WIND_DRVS u) ''winddir'', field_value kv ''winddir'')]"
    by (simp add: poll_rows_def row_write_eq)
  show ?thesis
    using a b c d by (simp add: longPoll_calls e)
qed

lemma rnd64_pressure:
  "rnd64 (299 / 10) = 4208050901824307 / 2 ^ 47"
  "rnd64 (301 / 10) = 4236198399495373 / 2 ^ 47"
  by (subst rnd64_eval [where e = 4], simp_all add: round_half_even_def power_int_minus)+

text \<open>
  The theorem on the device response of the end-to-end example; the two pressures are the
  floats nearest to 29.9 and 30.1.
\<close>

theorem f_to_c_on_temperature_fields_witness:
  "ip (ready True) \<noteq> [] \<and> nodes_ready (ready True) \<and> drivers_ok sample_uom \<and>
   list_all (present sample_payload) (poll_rows sample_uom) \<and>
   map_of sample_payload ''tempout'' = Some (JStr ''68.0'') \<and>
   map_of sample_payload ''dew'' = Some (JStr ''50'') \<and>
   set_calls (new_calls (ready True)
      (snd (longPoll (Response 200 (Ok (JObj sample_payload))) sample_uom (ready True))))
     = [(''light'', ''ST'', Fin 3), (''light'', ''GV0'', Fin 450),
        (''rain'', ''ST'', Fin 0), (''rain'', ''GV5'', Fin 0.25),
        (''temperature'', ''GV0'', Fin 10), (''temperature'', ''ST'', Fin 20),
        (''temperature'', ''GV1'', Fin 20), (''humidity'', ''ST'', Fin 55),
        (''pressure'', ''ST'', Fin (4208050901824307 / 2 ^ 47)),
        (''pressure'', ''GV0'', Fin (4236198399495373 / 2 ^ 47)),
        (''wind'', ''ST'', Fin 5), (''wind'', ''GV1'', Fin 10), (''wind'', ''GV0'', Fin 180)]"
proof -
  note t = f_to_c_on_temperature_fields [where u = sample_uom and st = "ready True"
      and kv = sample_payload and status = 200]
  have p: "list_all (present sample_payload) (poll_rows sample_uom)"
    by (simp add: rows_eval sample_payload_def)
  have m: "map_of sample_payload ''tempout'' = Some (JStr ''68.0'')"
    "map_of sample_payload ''dew'' = Some (JStr ''50'')"
    by (simp_all add: sample_payload_def)
  have c: "driver_code (LITE_DRVS sample_uom) ''uv'' = ''ST''"
    "driver_code (LITE_DRVS sample_uom) ''solar_radiation'' = ''GV0''"
    "driver_code (RAIN_DRVS sample_uom) ''rate'' = ''ST''"
    "driver_code (RAIN_DRVS sample_uom) ''total'' = ''GV5''"
    "driver_code (TEMP_DRVS sample_uom) ''dewpoint'' = ''GV0''"
    "driver_code (TEMP_DRVS sample_uom) ''main'' = ''ST''"
    "driver_code (TEMP_DRVS sample_uom) ''windchill'' = ''GV1''"
    "driver_code (HUMD_DRVS sample_uom) ''main'' = ''ST''"
    "driver_code (PRES_DRVS sample_uom) ''station'' = ''ST''"
    "driver_code (PRES_DRVS sample_uom) ''sealevel'' = ''GV0''"
    "driver_code (WIND_DRVS sample_uom) ''windspeed'' = ''ST''"
    "driver_code (WIND_DRVS sample_uom) ''gustspeed'' = ''GV1''"
    "driver_code (WIND_DRVS sample_uom) ''winddir'' = ''GV0''"
    by (simp_all add: driver_code_def sample_uom_def)
  have v: "field_value sample_payload ''uv'' = Fin 3"
    "field_value sample_payload ''solar'' = Fin 450"
    "field_value sample_payload ''rainr'' = Fin 0"
    "field_value sample_payload ''rain24'' = Fin 0.25"
    "py_round1 (f_to_c (field_value sample_payload ''dew'')) = Fin 10"
    "py_round1 (f_to_c (field_value sample_payload ''tempout'')) = Fin 20"
    "py_round1 (f_to_c (field_value sample_payload ''chill'')) = Fin 20"
    "field_value sample_payload ''humout'' = Fin 55"
    "field_value sample_payload ''bartr'' = Fin (4208050901824307 / 2 ^ 47)"
    "field_value sample_payload ''bar'' = Fin (4236198399495373 / 2 ^ 47)"
    "field_value sample_payload ''windspd'' = Fin 5"
    "field_value sample_payload ''gust'' = Fin 10"
    "field_value sample_payload ''winddir'' = Fin 180"
    by (simp_all add: field_value_def sample_payload_def float_eval rnd64_pressure round1_def
          round_half_even_def)
  show ?thesis
    using t ready_facts(1,2) [of True] ready_facts(3) p m by (simp add: c v)
qed

text \<open>
  Claim C6. With an empty endpoint \<open>longPoll\<close> returns normally and its only effect is
  one printed line: no request is made and no driver value is written.
\<close>

theorem longPoll_unconfigured:
  "ip st = [] \<Longrightarrow>
     longPoll resp u st = (Ok (), st\<lparr>trace := trace st @ [Print '' -  No IP/URL for WiFiLogger2.'']\<rparr>)"
  by (simp add: longPoll_def emit_def)

theorem longPoll_unconfigured_witness:
  "ip init = [] \<and>
   longPoll (Response 200 (Ok (JObj sample_payload))) sample_uom init
     = (Ok (), init\<lparr>trace := [Print '' -  No IP/URL for WiFiLogger2.'']\<rparr>)"
  using longPoll_unconfigured [of init "Response 200 (Ok (JObj sample_payload))" sample_uom]
  by (simp add: init_def)

text \<open>
  Claim C7. Whatever the status, \<open>get_data\<close> returns the outcome of parsing the body;
  a status other than 200 adds two log lines (syslog and standard output) after the
  request, and nothing else.
\<close>

theorem get_data_any_status:
  "fst (get_data (Response status body) st) = body \<and>
   (status \<noteq> 200 \<longrightarrow>
      new_calls st (snd (get_data (Response status body) st)) =
        [HttpGet (''http://'' @ ip st @ ''/wflexp.json''),
         Syslog ''Bad response from WiFiLogger2 '',
         Print '' -  Bad response from WiFiLogger2. '']) \<and>
   (status = 200 \<longrightarrow>
      new_calls st (snd (get_data (Response status body) st)) =
        [HttpGet (''http://'' @ ip st @ ''/wflexp.json'')])"
  by (simp add: get_data_def Let_def emit_def new_calls_def)

theorem get_data_any_status_witness:
  "(404::int) \<noteq> 200 \<and>
   fst (get_data (Response 404 (Ok (JObj sample_payload))) (ready True))
     = Ok (JObj sample_payload) \<and>
   new_calls (ready True) (snd (get_data (Response 404 (Ok (JObj sample_payload))) (ready True)))
     = [HttpGet ''http://192.168.1.50/wflexp.json'',
        Syslog ''Bad response from WiFiLogger2 '',
        Print '' -  Bad response from WiFiLogger2. ''] \<and>
   fst (get_data (Response 200 (Ok (JObj sample_payload))) (ready True))
     = Ok (JObj sample_payload)"
  using get_data_any_status [of 404 "Ok (JObj sample_payload)" "ready True"]
    get_data_any_status [of 200 "Ok (JObj sample_payload)" "ready True"]
  by (simp add: ready_discovered configured_eval)

subsection \<open>Claims on rounding and the derived calculations\<close>

lemma round_half_even_near:
  assumes "of_int n - 1 / 2 < y" and "y < of_int n + 1 / 2"
  shows "round_half_even y = n"
proof (cases "y < of_int n")
  case True
  have "\<lfloor>y\<rfloor> = n - 1"
    using True assms(1) by (intro floor_unique) auto
  then show ?thesis
    using assms(1) by (simp add: round_half_even_def Let_def)
next
  case False
  have "\<lfloor>y\<rfloor> = n"
    using False assms(2) by (intro floor_unique) auto
  then show ?thesis
    using assms(2) by (simp add: round_half_even_def Let_def)
qed

lemma round_half_even_close: "\<bar>of_int (round_half_even y) - y\<bar> \<le> 1 / 2"
proof -
  have "of_int \<lfloor>y\<rfloor> \<le> y" "y < of_int \<lfloor>y\<rfloor> + 1"
    by linarith+
  then show ?thesis
    by (auto simp: round_half_even_def Let_def)
qed

lemma round1_close: "\<bar>round1 x - x\<bar> \<le> 1 / 20"
  using round_half_even_close [of "x * 10"] unfolding round1_def by linarith

lemma round1_tenths: "round1 x * 10 \<in> \<int>"
  by (simp add: round1_def)

lemma exp_even_taylor:
  fixes x :: real
  assumes "even n"
  shows "(\<Sum>m<n. x ^ m / fact m) \<le> exp x"
proof -
  obtain t where "exp x = (\<Sum>m<n. x ^ m / fact m) + (exp t / fact n) * x ^ n"
    using Maclaurin_exp_le [of x n] by blast
  moreover have "0 \<le> (exp t / fact n) * x ^ n"
    using assms by (simp add: zero_le_even_power)
  ultimately show ?thesis by linarith
qed

lemma ln_half_bounds: "- 0.6938 \<le> ln (1 / 2 :: real)" "ln (1 / 2 :: real) \<le> - 0.6872"
proof -
  have "(\<Sum>m<6. (0.6938::real) ^ m / fact m) \<le> exp 0.6938"
    by (rule exp_even_taylor) simp
  moreover have "(2::real) \<le> (\<Sum>m<6. 0.6938 ^ m / fact m)"
    by (simp add: eval_nat_numeral lessThan_Suc fact_numeral)
  ultimately have "(2::real) \<le> exp 0.6938" by linarith
  then have "exp (- 0.6938) \<le> (1 / 2 :: real)"
    by (simp add: exp_minus field_simps)
  then show "- 0.6938 \<le> ln (1 / 2 :: real)"
    by (simp add: ln_ge_iff)
  have "(\<Sum>m<6. (- 0.6872::real) ^ m / fact m) \<le> exp (- 0.6872)"
    by (rule exp_even_taylor) simp
  moreover have "(1 / 2 :: real) \<le> (\<Sum>m<6. (- 0.6872) ^ m / fact m)"
    by (simp add: eval_nat_numeral lessThan_Suc fact_numeral)
  ultimately have "(1 / 2 :: real) \<le> exp (- 0.6872)" by linarith
  then have "ln (1 / 2 :: real) \<le> ln (exp (- 0.6872))"
    by (subst ln_le_cancel_iff) simp_all
  then show "ln (1 / 2 :: real) \<le> - 0.6872"
    by simp
qed

text \<open>
  Claim C9. \<open>Dewpoint(20, 50)\<close> returns 9.3: with the real logarithm the Magnus
  quotient lies strictly between 9.25 and 9.35.
\<close>

theorem Dewpoint_20_50: "Dewpoint 20 50 = Ok 9.3"
proof -
  define c where "c = ln (1 / 2 :: real)"
  define b where "b = (17.625 * 20) / (243.04 + 20 :: real)"
  define q where "q = (243.04 * (c + b)) / (17.625 - c - b)"
  have lo: "- 0.6938 \<le> c" and hi: "c \<le> - 0.6872"
    unfolding c_def by (rule ln_half_bounds)+
  have bv: "b = 352.5 / 263.04"
    by (simp add: b_def)
  have D: "0 < 17.625 - c - b"
    using hi by (simp add: bv)
  have "92.5 * (17.625 - c - b) < 243.04 * (c + b) * 10"
    using lo by (simp add: bv)
  then have l: "92.5 < q * 10"
    using D by (simp add: q_def pos_less_divide_eq)
  have "243.04 * (c + b) * 10 < 93.5 * (17.625 - c - b)"
    using hi by (simp add: bv)
  then have u: "q * 10 < 93.5"
    using D by (simp add: q_def pos_divide_less_eq)
  have "round_half_even (q * 10) = 93"
    using l u by (intro round_half_even_near) simp_all
  then have r: "round1 q = 9.3"
    by (simp add: round1_def)
  have "Dewpoint 20 50 = Ok (round1 q)"
    using D by (simp add: Dewpoint_def Let_def q_def c_def b_def)
  then show ?thesis
    by (simp add: r)
qed















text \<open>
  Claim C10. The \<open>setDriver\<close> of the temperature node hands the host the value rounded
  to one decimal, the one of every other node class the value as it is, both with
  \<open>report\<close> and \<open>force\<close> set. The rounded value is a multiple of one tenth at most
  one twentieth away. A temperature field that \<open>float\<close> rejects reaches the host as
  \<open>-17.8\<close>, the rounding of the float nearest to \<open>-160/9\<close>, which is what
  \<open>f_to_c(0)\<close> computes.
\<close>

theorem setDriver_rounding:
  "(node_cls n = TemperatureNode \<longrightarrow>
      setDriver n d v st = emit (HostSetDriver (node_address n) d (py_round1 v) True True) st) \<and>
   (node_cls n \<noteq> TemperatureNode \<longrightarrow>
      setDriver n d v st = emit (HostSetDriver (node_address n) d v True True) st) \<and>
   py_round1 (Fin x) = Fin (round1 x) \<and> \<bar>round1 x - x\<bar> \<le> 1 / 20 \<and> round1 x * 10 \<in> \<int> \<and>
   (py_float j = Inl e \<longrightarrow>
      f_to_c (convert_to_float j) = Fin (- 5003999585967218 / 2 ^ 48) \<and>
      py_round1 (f_to_c (convert_to_float j)) = Fin (- 17.8))"
proof -
  have "f_to_c (convert_to_float j) = Fin (- 5003999585967218 / 2 ^ 48)"
    "py_round1 (f_to_c (convert_to_float j)) = Fin (- 17.8)"
    if "py_float j = Inl e"
    using that by (rule malformed_zero(2), rule malformed_zero(3))
  then show ?thesis
    using round1_close [of x] by (simp add: setDriver_emit round1_tenths)
qed

theorem setDriver_rounding_witness:
  "py_float (JStr ''n/a'') = Inl ValueError \<and>
   setDriver \<lparr>node_cls = TemperatureNode, node_address = ''temperature'',
               node_name = ''Temperatures'', node_units = ''us'', node_drivers = None\<rparr>
      ''ST'' (f_to_c (convert_to_float (JStr ''n/a''))) init
     = init\<lparr>trace := [HostSetDriver ''temperature'' ''ST'' (Fin (- 17.8)) True True]\<rparr> \<and>
   setDriver \<lparr>node_cls = HumidityNode, node_address = ''humidity'',
               node_name = ''Humidity'', node_units = ''us'', node_drivers = None\<rparr>
      ''ST'' (Fin 55.55) init
     = init\<lparr>trace := [HostSetDriver ''humidity'' ''ST'' (Fin 55.55) True True]\<rparr>"
proof -
  have p: "py_float (JStr ''n/a'') = Inl ValueError"
    by (simp add: float_eval)
  note t1 = setDriver_rounding [where j = "JStr ''n/a''" and e = ValueError and st = init
      and d = "''ST''" and v = "f_to_c (convert_to_float (JStr ''n/a''))"
      and n = "\<lparr>node_cls = TemperatureNode, node_address = ''temperature'',
               node_name = ''Temperatures'', node_units = ''us'', node_drivers = None\<rparr>"]
  note t2 = setDriver_rounding [where st = init and d = "''ST''" and v = "Fin 55.55"
      and n = "\<lparr>node_cls = HumidityNode, node_address = ''humidity'',
               node_name = ''Humidity'', node_units = ''us'', node_drivers = None\<rparr>"]
  show ?thesis
    using p t1 t2 by (simp add: emit_def init_def)
qed

subsection \<open>Claim on configuration events\<close>

lemma dict_eq_iff: "dict_eq a b \<longleftrightarrow> map_of a = map_of b"
proof
  assume "dict_eq a b"
  then have k: "\<forall>k \<in> set (map fst a) \<union> set (map fst b). map_of a k = map_of b k"
    by (simp add: dict_eq_def list_all_iff)
  show "map_of a = map_of b"
  proof
    fix k
    show "map_of a k = map_of b k"
    proof (cases "k \<in> set (map fst a) \<union> set (map fst b)")
      case True
      then show ?thesis using k by blast
    next
      case False
      then have "map_of a k = None" "map_of b k = None"
        by (simp_all add: map_of_eq_None_iff)
      then show ?thesis by simp
    qed
  qed
next
  assume "map_of a = map_of b"
  then show "dict_eq a b"
    by (simp add: dict_eq_def list_all_iff)
qed

lemma reconfigured_trace:
  "\<exists>A D. trace (reconfigured h u cp st) = trace st @ A @ D \<and>
      add_calls A = [] \<and>
      WriteProfile (temperature_list (reconfigured h u cp st)) (humidity_list (reconfigured h u cp st))
        (pressure_list (reconfigured h u cp st)) (wind_list (reconfigured h u cp st))
        (rain_list (reconfigured h u cp st)) (light_list (reconfigured h u cp st))
        (lightning_list (reconfigured h u cp st)) \<in> set A \<and>
      InstallProfile \<in> set A \<and>
      D = new_calls (setup_nodedefs h (set_configuration cp
             (emit (LogInfo ''New configuration, updating configuration'') st)))
            (reconfigured h u cp st)"
proof -
  define s2 where "s2 = set_configuration cp
             (emit (LogInfo ''New configuration, updating configuration'') st)"
  define s3 where "s3 = setup_nodedefs h s2"
  define A where "A = [LogInfo ''New configuration, updating configuration'',
       LogInfo ''Check for existing configuration value'',
       LogInfo ''Creating node definition profile based on config.'',
       WriteProfile (temperature_list s3) (humidity_list s3) (pressure_list s3) (wind_list s3)
         (rain_list s3) (light_list s3) (lightning_list s3),
       InstallProfile]
       @ (if install_ok h then [] else [LogError ''Failed up push profile to ISY'' None])"
  have r: "reconfigured h u cp st = discovered h u s3"
    by (simp add: reconfigured_def s3_def s2_def)
  have t3: "trace s3 = trace st @ A"
    by (simp add: s3_def A_def setup_nodedefs_explicit s2_def)
  obtain D where D: "trace (discovered h u s3) = trace s3 @ D"
    using discovered_trace_ex by blast
  have "trace (reconfigured h u cp st) = trace st @ A @ D"
    by (simp add: r D t3)
  moreover have "add_calls A = []"
    by (simp add: A_def)
  moreover have "WriteProfile (temperature_list (reconfigured h u cp st))
        (humidity_list (reconfigured h u cp st))
        (pressure_list (reconfigured h u cp st)) (wind_list (reconfigured h u cp st))
        (rain_list (reconfigured h u cp st)) (light_list (reconfigured h u cp st))
        (lightning_list (reconfigured h u cp st)) \<in> set A"
    by (simp add: r A_def)
  moreover have "InstallProfile \<in> set A"
    by (simp add: A_def)
  moreover have "D = new_calls s3 (reconfigured h u cp st)"
    by (simp add: r new_calls_append [OF D])
  ultimately show ?thesis
    unfolding s3_def s2_def by blast
qed

lemma reconfigured_frame:
  "temperature_list (reconfigured h u cp st) =
     AList.update ''windchill'' ''I_TEMP_F''
       (AList.update ''dewpoint'' ''I_TEMP_F''
         (AList.update ''main'' ''I_TEMP_F'' (temperature_list st)))"
  "humidity_list (reconfigured h u cp st) = AList.update ''main'' ''I_HUMIDITY'' (humidity_list st)"
  "pressure_list (reconfigured h u cp st) =
     AList.update ''sealevel'' ''I_INHG'' (AList.update ''station'' ''I_INHG'' (pressure_list st))"
  "wind_list (reconfigured h u cp st) =
     AList.update ''winddir'' ''I_DEGREE''
       (AList.update ''gustspeed'' ''I_MPH''
         (AList.update ''windspeed'' ''I_MPH'' (wind_list st)))"
  "rain_list (reconfigured h u cp st) =
     AList.update ''total'' ''I_INCHES'' (AList.update ''rate'' ''I_INHR'' (rain_list st))"
  "light_list (reconfigured h u cp st) =
     AList.update ''solar_radiation'' ''I_RADIATION'' (AList.update ''uv'' ''I_UV'' (light_list st))"
  "lightning_list (reconfigured h u cp st) = lightning_list st"
  "ip (reconfigured h u cp st) = (case map_of cp ''IPAddress'' of Some a \<Rightarrow> a | None \<Rightarrow> [])"
  "units (reconfigured h u cp st) = (case map_of cp ''Units'' of Some v \<Rightarrow> v | None \<Rightarrow> ''us'')"
  by (simp_all add: reconfigured_def setup_nodedefs_explicit)

text \<open>
  Claim C4. The block is compared with the cached copy as dicts. When they are equal,
  \<open>process_config\<close> returns the state it was given: no call is made and nothing is
  changed. When they differ (and the tables of \<open>uom\<close> resolve the names in use), it
  returns normally after it has written and installed the profile of the refreshed
  tables, handed the six nodes of a discovery to the host, and cached the block; whatever
  notices the host showed before, it shows afterwards the notice about the address when
  the address is empty and none otherwise.
\<close>

theorem process_config_change_detection:
  assumes "customParams cfg = Some cp"
  shows "(dict_eq cp (myConfig st) \<longleftrightarrow> map_of cp = map_of (myConfig st)) \<and>
    (dict_eq cp (myConfig st) \<longrightarrow> process_config h u cfg st = (Ok (), st)) \<and>
    (\<not> dict_eq cp (myConfig st) \<and> tables_ok u \<and> resolvable u st \<longrightarrow>
       (let st' = snd (process_config h u cfg st); new = new_calls st st'
        in fst (process_config h u cfg st) = Ok () \<and>
           WriteProfile (temperature_list st') (humidity_list st') (pressure_list st')
             (wind_list st') (rain_list st') (light_list st') (lightning_list st') \<in> set new \<and>
           InstallProfile \<in> set new \<and>
           add_calls new =
             [(TemperatureNode, ''temperature'', ''Temperatures'', units st',
                 class_drivers st TemperatureNode
                   @ map (slot u (TEMP_DRVS u)) (temperature_list st')),
              (HumidityNode, ''humidity'', ''Humidity'', units st',
                 class_drivers st HumidityNode @ map (slot u (HUMD_DRVS u)) (humidity_list st')),
              (PressureNode, ''pressure'', ''Barometric Pressure'', units st',
                 class_drivers st PressureNode @ map (slot u (PRES_DRVS u)) (pressure_list st')),
              (WindNode, ''wind'', ''Wind'', units st',
                 class_drivers st WindNode @ map (slot u (WIND_DRVS u)) (wind_list st')),
              (PrecipitationNode, ''rain'', ''Precipitation'', units st',
                 class_drivers st PrecipitationNode @ map (slot u (RAIN_DRVS u)) (rain_list st')),
              (LightNode, ''light'', ''Illumination'', units st',
                 class_drivers st LightNode @ map (slot u (LITE_DRVS u)) (light_list st'))] \<and>
           notices_after ns new = (if ip st' = [] then [ip_notice] else []) \<and>
           myConfig st' = cp \<and>
           ip st' = (case map_of cp ''IPAddress'' of Some a \<Rightarrow> a | None \<Rightarrow> []) \<and>
           units st' = (case map_of cp ''Units'' of Some v \<Rightarrow> v | None \<Rightarrow> ''us'')))"
proof (intro conjI impI)
  show "dict_eq cp (myConfig st) \<longleftrightarrow> map_of cp = map_of (myConfig st)"
    by (rule dict_eq_iff)
next
  assume "dict_eq cp (myConfig st)"
  then show "process_config h u cfg st = (Ok (), st)"
    using assms by (simp add: process_config_def)
next
  assume a: "\<not> dict_eq cp (myConfig st) \<and> tables_ok u \<and> resolvable u st"
  define R where "R = reconfigured h u cp st"
  define N where "N = (if ip R = [] then [AddNotice ip_notice] else [])"
  define s3 where "s3 = setup_nodedefs h (set_configuration cp
             (emit (LogInfo ''New configuration, updating configuration'') st))"
  define st' where "st' = snd (process_config h u cfg st)"
  have pc: "process_config h u cfg st =
      (Ok (), (if ip R = [] then emit (AddNotice ip_notice) else (\<lambda>s. s))
                (emit RemoveNoticesAll (R\<lparr>myConfig := cp\<rparr>)))"
    unfolding R_def using assms a by (intro process_config_changed) simp_all
  obtain A D where AD: "trace R = trace st @ A @ D" "add_calls A = []"
    "WriteProfile (temperature_list R) (humidity_list R) (pressure_list R) (wind_list R)
        (rain_list R) (light_list R) (lightning_list R) \<in> set A"
    "InstallProfile \<in> set A" "D = new_calls s3 R"
    unfolding R_def s3_def using reconfigured_trace [of h u cp st] by blast
  have f: "temperature_list st' = temperature_list R" "humidity_list st' = humidity_list R"
    "pressure_list st' = pressure_list R" "wind_list st' = wind_list R"
    "rain_list st' = rain_list R" "light_list st' = light_list R"
    "lightning_list st' = lightning_list R" "units st' = units R" "ip st' = ip R"
    "myConfig st' = cp"
    by (simp_all add: st'_def pc emit_def)
  have "trace st' = trace st @ (A @ D @ RemoveNoticesAll # N)"
    by (simp add: st'_def pc AD(1) N_def emit_def)
  then have new: "new_calls st st' = A @ D @ RemoveNoticesAll # N"
    by (rule new_calls_append)
  have R3: "R = discovered h u s3"
    by (simp add: R_def s3_def reconfigured_def)
  have d: "add_calls D =
             [(TemperatureNode, ''temperature'', ''Temperatures'', units R,
                 class_drivers st TemperatureNode
                   @ map (slot u (TEMP_DRVS u)) (temperature_list R)),
              (HumidityNode, ''humidity'', ''Humidity'', units R,
                 class_drivers st HumidityNode @ map (slot u (HUMD_DRVS u)) (humidity_list R)),
              (PressureNode, ''pressure'', ''Barometric Pressure'', units R,
                 class_drivers st PressureNode @ map (slot u (PRES_DRVS u)) (pressure_list R)),
              (WindNode, ''wind'', ''Wind'', units R,
                 class_drivers st WindNode @ map (slot u (WIND_DRVS u)) (wind_list R)),
              (PrecipitationNode, ''rain'', ''Precipitation'', units R,
                 class_drivers st PrecipitationNode @ map (slot u (RAIN_DRVS u)) (rain_list R)),
              (LightNode, ''light'', ''Illumination'', units R,
                 class_drivers st LightNode @ map (slot u (LITE_DRVS u)) (light_list R))]"
    unfolding AD(5) R3 discovered_new_add_calls by (simp add: s3_def)
  have n: "notices_after ns (new_calls st st') = (if ip st' = [] then [ip_notice] else [])"
    unfolding new by (simp add: notices_after_append N_def f)
  have aN: "add_calls N = []"
    by (simp add: N_def)
  have "fst (process_config h u cfg st) = Ok ()"
    by (simp add: pc)
  then show "let st' = snd (process_config h u cfg st); new = new_calls st st'
        in fst (process_config h u cfg st) = Ok () \<and>
           WriteProfile (temperature_list st') (humidity_list st') (pressure_list st')
             (wind_list st') (rain_list st') (light_list st') (lightning_list st') \<in> set new \<and>
           InstallProfile \<in> set new \<and>
           add_calls new =
             [(TemperatureNode, ''temperature'', ''Temperatures'', units st',
                 class_drivers st TemperatureNode
                   @ map (slot u (TEMP_DRVS u)) (temperature_list st')),
              (HumidityNode, ''humidity'', ''Humidity'', units st',
                 class_drivers st HumidityNode @ map (slot u (HUMD_DRVS u)) (humidity_list st')),
              (PressureNode, ''pressure'', ''Barometric Pressure'', units st',
                 class_drivers st PressureNode @ map (slot u (PRES_DRVS u)) (pressure_list st')),
              (WindNode, ''wind'', ''Wind'', units st',
                 class_drivers st WindNode @ map (slot u (WIND_DRVS u)) (wind_list st')),
              (PrecipitationNode, ''rain'', ''Precipitation'', units st',
                 class_drivers st PrecipitationNode @ map (slot u (RAIN_DRVS u)) (rain_list st')),
              (LightNode, ''light'', ''Illumination'', units st',
                 class_drivers st LightNode @ map (slot u (LITE_DRVS u)) (light_list st'))] \<and>
           notices_after ns new = (if ip st' = [] then [ip_notice] else []) \<and>
           myConfig st' = cp \<and>
           ip st' = (case map_of cp ''IPAddress'' of Some a \<Rightarrow> a | None \<Rightarrow> []) \<and>
           units st' = (case map_of cp ''Units'' of Some v \<Rightarrow> v | None \<Rightarrow> ''us'')"
    unfolding Let_def st'_def [symmetric]
    using AD(2,3,4) d n aN
    by (simp add: new f add_calls_append reconfigured_frame(8,9) [of h u cp st, folded R_def])
qed

text \<open>
  The theorem twice: a first configuration event on the initial state, with units but no
  address, and the same block again on the state that the first event leaves.
\<close>

theorem process_config_change_detection_witness:
  "customParams units_only = Some [(''Units'', ''metric'')] \<and>
   \<not> dict_eq [(''Units'', ''metric'')] (myConfig init) \<and>
   tables_ok sample_uom \<and> resolvable sample_uom init \<and>
   myConfig settled = [(''Units'', ''metric'')] \<and> units settled = ''metric'' \<and>
   ip settled = [] \<and>
   notices_after [''stale''] (new_calls init settled) = [ip_notice] \<and>
   InstallProfile \<in> set (new_calls init settled) \<and>
   dict_eq [(''Units'', ''metric'')] (myConfig settled) \<and>
   process_config (sample_host True) sample_uom units_only settled = (Ok (), settled)"
proof -
  have c: "customParams units_only = Some [(''Units'', ''metric'')]"
    by (simp add: units_only_def)
  have n: "\<not> dict_eq [(''Units'', ''metric'')] (myConfig init)"
    by (simp add: dict_eq_def init_def)
  have t: "tables_ok sample_uom"
    by (simp add: tables_ok_def drivers_ok_def units_ok_def poll_rows_def sample_uom_def)
  have r: "resolvable sample_uom init"
    by (simp add: resolvable_def resolves_def init_def)
  note t1 = process_config_change_detection [OF c, where st = init and h = "sample_host True"
      and u = sample_uom and ns = "[''stale'']"]
  have 1: "myConfig settled = [(''Units'', ''metric'')]" "units settled = ''metric''"
    "ip settled = []" "notices_after [''stale''] (new_calls init settled) = [ip_notice]"
    "InstallProfile \<in> set (new_calls init settled)"
    using t1 n t r by (simp_all add: Let_def settled_def [symmetric])
  have e: "dict_eq [(''Units'', ''metric'')] (myConfig settled)"
    by (simp add: 1 dict_eq_def)
  note t2 = process_config_change_detection [OF c, where st = settled and h = "sample_host True"
      and u = sample_uom]
  have 2: "process_config (sample_host True) sample_uom units_only settled = (Ok (), settled)"
    using t2 e by simp
  show ?thesis
    using c n t r 1 e 2 by simp
qed

end
